theory Spec2Isabelle
  imports Complex_Main
begin

section \<open>LeVe Coach: the recommendation engine of engine.js\<close>

text \<open>
  The engine computes with JavaScript numbers. They are modelled as exact reals
  (\<^typ>\<open>real\<close>); the planned repetitions and set counts of a mesocycle, week numbers
  and day differences, which the application keeps integral, are \<^typ>\<open>int\<close>. The
  repetitions of a recorded set are a JavaScript number, not always integral (the CSV
  import stores the parsed number as it is), and are \<^typ>\<open>real\<close>. A value that may be \<open>null\<close> or
  \<open>undefined\<close> is an \<^typ>\<open>'a option\<close>. An ISO date \<open>YYYY-MM-DD\<close> is modelled by
  its day number (days since 1970-01-01), so that \<open>new Date(a) - new Date(b)\<close> is
  \<open>(a - b) * 86400000\<close> milliseconds. The rounding error of double arithmetic is
  outside the model, except in the product \<open>sets * 0.7\<close> of the accessory cap, where
  it decides the rounded set count and is modelled (\<open>times07\<close>).
\<close>

subsection \<open>JavaScript operators on optional values\<close>

definition numOr :: "real option \<Rightarrow> real \<Rightarrow> real" where
  \<comment> \<open>\<open>a || b\<close> on a number: \<open>b\<close> when \<open>a\<close> is missing or 0.\<close>
  "numOr a b = (case a of None \<Rightarrow> b | Some v \<Rightarrow> if v = 0 then b else v)"

definition intOr :: "int option \<Rightarrow> int \<Rightarrow> int" where
  "intOr a b = (case a of None \<Rightarrow> b | Some v \<Rightarrow> if v = 0 then b else v)"

definition strOr :: "string option \<Rightarrow> string \<Rightarrow> string" where
  \<comment> \<open>\<open>a || b\<close> on a string: \<open>b\<close> when \<open>a\<close> is missing or empty.\<close>
  "strOr a b = (case a of None \<Rightarrow> b | Some v \<Rightarrow> if v = [] then b else v)"

definition nullish :: "'a option \<Rightarrow> 'a \<Rightarrow> 'a" where
  \<comment> \<open>\<open>a ?? b\<close>\<close>
  "nullish a b = (case a of None \<Rightarrow> b | Some v \<Rightarrow> v)"

subsection \<open>Constants\<close>

definition DAY_TYPE_MULTIPLIERS :: "string \<Rightarrow> real option" where
  "DAY_TYPE_MULTIPLIERS k =
     (if k = ''heavy'' then Some 1.0
      else if k = ''volume'' then Some 0.6
      else if k = ''speed'' then Some 0.4
      else if k = ''accessory'' then Some 0.0
      else if k = ''rest'' then Some 0
      else None)"

datatype setsSpec = Fixed int | Range int int

definition DAY_TYPE_SET_RECIPES :: "string \<Rightarrow> setsSpec option" where
  \<comment> \<open>Only the \<open>sets\<close> field of a recipe is read by the engine: a number, or an array
      of two numbers.\<close>
  "DAY_TYPE_SET_RECIPES k =
     (if k = ''heavy'' then Some (Fixed 3)
      else if k = ''volume'' then Some (Range 4 5)
      else if k = ''speed'' then Some (Range 4 5)
      else None)"

datatype readiness_class = GREEN | YELLOW | RED

subsection \<open>Math utilities\<close>

fun insertCmp :: "('a \<Rightarrow> 'a \<Rightarrow> real) \<Rightarrow> 'a \<Rightarrow> 'a list \<Rightarrow> 'a list" where
  "insertCmp cmp x [] = [x]"
| "insertCmp cmp x (y # ys) = (if cmp x y \<le> 0 then x # y # ys else y # insertCmp cmp x ys)"

definition jsSort :: "('a \<Rightarrow> 'a \<Rightarrow> real) \<Rightarrow> 'a list \<Rightarrow> 'a list" where
  \<comment> \<open>\<open>Array.prototype.sort(cmp)\<close>: a stable sort by the comparator.\<close>
  "jsSort cmp xs = foldr (insertCmp cmp) xs []"

definition median :: "real list \<Rightarrow> real" where
  "median arr =
     (if length arr = 0 then 0
      else let sorted = jsSort (\<lambda>a b. a - b) arr;
               mid = length sorted div 2
           in if length sorted mod 2 \<noteq> 0 then sorted ! mid
              else (sorted ! (mid - 1) + sorted ! mid) / 2)"

definition mad :: "real list \<Rightarrow> real" where
  "mad arr = (let med = median arr in median (map (\<lambda>x. \<bar>x - med\<bar>) arr))"

definition madSigma :: "real list \<Rightarrow> real" where
  "madSigma arr =
     (let rawMad = mad arr; sigma = 1.4826 * rawMad
      in if sigma = 0 then 1 / 1000000 else sigma)"

definition zScore :: "real \<Rightarrow> real \<Rightarrow> real \<Rightarrow> real" where
  "zScore v med sigma = (v - med) / max (1 / 1000000) sigma"

definition avg :: "real list \<Rightarrow> real" where
  "avg arr = (if length arr = 0 then 0 else foldl (\<lambda>s v. s + v) 0 arr / real (length arr))"

definition clamp :: "real \<Rightarrow> real \<Rightarrow> real \<Rightarrow> real" where
  "clamp v lo hi = max lo (min hi v)"

definition mathRound :: "real \<Rightarrow> int" where
  \<comment> \<open>\<open>Math.round\<close>: to the nearest integer, a half towards \<open>+\<infinity>\<close>.\<close>
  "mathRound x = \<lfloor>x + 1 / 2\<rfloor>"

definition roundToHalf :: "real \<Rightarrow> real" where
  "roundToHalf v = real_of_int (mathRound (v * 2)) / 2"

subsection \<open>e1RM calculations\<close>

definition e1rmSystem :: "real \<Rightarrow> real \<Rightarrow> real \<Rightarrow> real option \<Rightarrow> real option" where
  "e1rmSystem bodyweightKg externalLoadKg reps vara =
     (let systemLoad = bodyweightKg + externalLoadKg
      in if systemLoad \<le> 0 \<or> reps < 1 then None
         else let effectiveReps = reps + nullish vara 2
              in Some (systemLoad * (1 + effectiveReps / 30)))"

definition e1rmExternal :: "real \<Rightarrow> real \<Rightarrow> real \<Rightarrow> real option \<Rightarrow> real option" where
  "e1rmExternal bodyweightKg externalLoadKg reps vara =
     (case e1rmSystem bodyweightKg externalLoadKg reps vara of
        None \<Rightarrow> None
      | Some sys \<Rightarrow> Some (max 0 (sys - bodyweightKg)))"

definition e1rmAccessory :: "real \<Rightarrow> real \<Rightarrow> real option" where
  "e1rmAccessory weightKg reps =
     (if weightKg \<le> 0 \<or> reps < 1 then None
      else Some (weightKg * (1 + reps / 30)))"

definition targetLoadFromE1RM :: "real option \<Rightarrow> real \<Rightarrow> int \<Rightarrow> real \<Rightarrow> real option" where
  "targetLoadFromE1RM e1rmSys bodyweightKg targetReps targetVx =
     (case e1rmSys of
        None \<Rightarrow> None
      | Some e \<Rightarrow>
          if e \<le> 0 then None
          else let effectiveReps = real_of_int targetReps + targetVx;
                   targetSystemLoad = e / (1 + effectiveReps / 30);
                   external = targetSystemLoad - bodyweightKg
               in Some (roundToHalf (max 0 external)))"

subsection \<open>Readiness: classification, 2/3 rule and velocity veto\<close>

definition classifyReadinessZ :: "real \<Rightarrow> readiness_class" where
  "classifyReadinessZ z =
     (if z \<ge> - 0.5 then GREEN
      else if z \<ge> - 1.0 then YELLOW
      else RED)"

text \<open>
  A channel result \<open>{ z, class, channel, ... }\<close>. The field \<open>class\<close> is \<open>cls\<close> here;
  \<open>baseline\<close> and \<open>meanOvershoot\<close>, which some channels carry and nothing below reads,
  are left out.
\<close>

record channelR =
  zscore :: "real option"
  cls :: "readiness_class option"
  channel :: string

record channels =
  ch_velocity :: "channelR option"
  ch_hrv :: "channelR option"
  ch_vara :: "channelR option"

record readiness =
  combined :: readiness_class
  capLevel :: nat
  rd_channels :: "channels option"

definition countClass :: "readiness_class \<Rightarrow> channelR list \<Rightarrow> nat" where
  \<comment> \<open>\<open>counts[c]\<close> after \<open>for (const ch of active) counts[ch.class]++\<close>\<close>
  "countClass c active = length (filter (\<lambda>ch. cls ch = Some c) active)"

definition combineReadiness :: "channelR \<Rightarrow> channelR \<Rightarrow> channelR \<Rightarrow> readiness" where
  "combineReadiness velocityR hrvR varaR =
     (let chans = [velocityR, hrvR, varaR];
          active = filter (\<lambda>c. cls c \<noteq> None) chans
      in if length active = 0 then
           \<lparr>combined = GREEN, capLevel = 0,
            rd_channels = Some \<lparr>ch_velocity = Some velocityR, ch_hrv = Some hrvR, ch_vara = Some varaR\<rparr>\<rparr>
         else
           let cGREEN = countClass GREEN active;
               cYELLOW = countClass YELLOW active;
               cRED = countClass RED active;
               combined0 =
                 (if cGREEN \<ge> 2 then GREEN
                  else if cRED \<ge> 2 \<or> (cRED \<ge> 1 \<and> cYELLOW \<ge> 1) then RED
                  else YELLOW);
               combined1 =
                 (if cls velocityR = Some RED then
                    let c1 = (if combined0 = GREEN then YELLOW else combined0);
                        othersYellowOrRed =
                          length (filter (\<lambda>c. cls c = Some YELLOW \<or> cls c = Some RED) [hrvR, varaR])
                    in if othersYellowOrRed \<ge> 1 then RED else c1
                  else combined0);
               capLevel = (if combined1 = GREEN then 0 else if combined1 = YELLOW then 1 else 2)
           in \<lparr>combined = combined1, capLevel = capLevel,
               rd_channels = Some \<lparr>ch_velocity = Some velocityR, ch_hrv = Some hrvR, ch_vara = Some varaR\<rparr>\<rparr>)"

subsection \<open>The environment of a run\<close>

text \<open>
  What the engine takes from its host is a parameter of the model: the identifiers that
  \<open>uid()\<close> generates (\<open>uid env k\<close> is the one returned by the \<open>k\<close>-th call of a run),
  the current date and time, the rendering of a number in a template literal
  (\<open>numStr\<close>) and by \<open>toFixed\<close>, and the host's \<open>localeCompare\<close>.
  Finnish texts are written without diacritics, and the dash and arrow of the messages
  in ASCII.
\<close>

type_synonym dateISO = int

record env =
  uid :: "nat \<Rightarrow> string"
  todayISO :: dateISO
  nowISO :: string
  numStr :: "real \<Rightarrow> string"
  toFixed :: "real \<Rightarrow> nat \<Rightarrow> string"
  localeCompare :: "string \<Rightarrow> string \<Rightarrow> real"

definition dateMs :: "dateISO \<Rightarrow> int" where
  \<comment> \<open>\<open>new Date(iso)\<close> as milliseconds since the epoch\<close>
  "dateMs d = d * 86400000"

definition getDay :: "dateISO \<Rightarrow> int" where
  \<comment> \<open>\<open>Date.prototype.getDay\<close>, 0 = Sunday; 1970-01-01 was a Thursday. The host's time
      zone is taken at or east of UTC, as the application's \<open>Europe/Helsinki\<close> is.\<close>
  "getDay d = (d + 4) mod 7"

subsection \<open>Mesocycle data\<close>

record slot =
  role :: string
  category :: string
  defaultMovementName :: string
  sl_sets :: int
  sl_reps :: int
  sl_targetVx :: "real option"

record dayPlan =
  dp_dayOfWeek :: "int option"
  dp_dayType :: "string option"
  dp_slots :: "slot list option"

record weekDef =
  wd_week :: int
  deltaPctBase :: real
  label :: string
  heavyReps :: int
  heavyTargetVx :: real

record weekPlan =
  wp_week :: int
  days :: "dayPlan list option"

record mesocycle =
  mesocycleId :: string
  startDateISO :: "dateISO option"
  weekCount :: int
  weekDefs :: "weekDef list option"
  weekPlans :: "weekPlan list option"

definition mkSlot :: "string \<Rightarrow> string \<Rightarrow> string \<Rightarrow> int \<Rightarrow> int \<Rightarrow> real option \<Rightarrow> slot" where
  "mkSlot r c n s p v =
     \<lparr>role = r, category = c, defaultMovementName = n, sl_sets = s, sl_reps = p, sl_targetVx = v\<rparr>"

definition mkDay :: "int \<Rightarrow> string \<Rightarrow> slot list \<Rightarrow> dayPlan" where
  "mkDay d t ss = \<lparr>dp_dayOfWeek = Some d, dp_dayType = Some t, dp_slots = Some ss\<rparr>"

definition defaultWeekDefs :: "weekDef list" where
  "defaultWeekDefs =
     [\<lparr>wd_week = 1, deltaPctBase = 0, label = ''Adaptaatio'', heavyReps = 3, heavyTargetVx = 2\<rparr>,
      \<lparr>wd_week = 2, deltaPctBase = 0.025, label = ''Loading'', heavyReps = 3, heavyTargetVx = 2\<rparr>,
      \<lparr>wd_week = 3, deltaPctBase = 0.05, label = ''Overreach'', heavyReps = 2, heavyTargetVx = 1\<rparr>,
      \<lparr>wd_week = 4, deltaPctBase = - 0.25, label = ''Deload'', heavyReps = 3, heavyTargetVx = 4\<rparr>]"

definition defaultWeekPlans :: "weekPlan list" where
  "defaultWeekPlans =
     [\<lparr>wp_week = 1, days = Some
        [mkDay 1 ''heavy''
           [mkSlot ''primary'' ''vertikaaliveto'' ''Lisapainoleuanveto'' 3 3 (Some 2),
            mkSlot ''accessory'' ''horisontaalityonto'' ''Penkkipunnerrus'' 4 6 (Some 3),
            mkSlot ''accessory'' ''horisontaaliveto'' ''Penkkiveto'' 3 8 (Some 3),
            mkSlot ''accessory'' ''hauisfleksio'' ''Hauiskaanto tanko'' 3 10 None],
         mkDay 3 ''volume''
           [mkSlot ''primary'' ''vertikaaliveto'' ''Lisapainoleuanveto'' 5 5 (Some 3),
            mkSlot ''accessory'' ''vertikaalityonto'' ''Pystypunnerrus'' 4 8 (Some 3),
            mkSlot ''accessory'' ''vertikaaliveto'' ''Ylatalja'' 3 10 (Some 3),
            mkSlot ''accessory'' ''ojentajaekstensio'' ''Tricep pushdown'' 3 12 None],
         mkDay 5 ''heavy''
           [mkSlot ''primary'' ''vertikaaliveto'' ''Lisapainoleuanveto'' 3 3 (Some 2),
            mkSlot ''accessory'' ''horisontaalityonto'' ''Chest press'' 4 8 (Some 3),
            mkSlot ''accessory'' ''horisontaaliveto'' ''Alatalja'' 3 10 (Some 3),
            mkSlot ''accessory'' ''hauisfleksio'' ''Hammer curl'' 3 10 None]]\<rparr>,
      \<lparr>wp_week = 2, days = Some
        [mkDay 1 ''heavy''
           [mkSlot ''primary'' ''vertikaaliveto'' ''Lisapainoleuanveto'' 3 3 (Some 2),
            mkSlot ''accessory'' ''horisontaalityonto'' ''Penkkipunnerrus'' 4 6 (Some 3),
            mkSlot ''accessory'' ''horisontaaliveto'' ''Penkkiveto'' 3 8 (Some 3),
            mkSlot ''accessory'' ''hauisfleksio'' ''Hauiskaanto tanko'' 3 10 None],
         mkDay 3 ''volume''
           [mkSlot ''primary'' ''vertikaaliveto'' ''Lisapainoleuanveto'' 5 5 (Some 3),
            mkSlot ''accessory'' ''vertikaalityonto'' ''Pystypunnerrus'' 4 8 (Some 3),
            mkSlot ''accessory'' ''vertikaaliveto'' ''Ylatalja'' 3 10 (Some 3),
            mkSlot ''accessory'' ''ojentajaekstensio'' ''Tricep pushdown'' 3 12 None],
         mkDay 5 ''heavy''
           [mkSlot ''primary'' ''vertikaaliveto'' ''Lisapainoleuanveto'' 3 3 (Some 2),
            mkSlot ''accessory'' ''horisontaalityonto'' ''Chest press'' 4 8 (Some 3),
            mkSlot ''accessory'' ''horisontaaliveto'' ''Alatalja'' 3 10 (Some 3),
            mkSlot ''accessory'' ''hauisfleksio'' ''Hammer curl'' 3 10 None]]\<rparr>,
      \<lparr>wp_week = 3, days = Some
        [mkDay 1 ''heavy''
           [mkSlot ''primary'' ''vertikaaliveto'' ''Lisapainoleuanveto'' 3 2 (Some 1),
            mkSlot ''accessory'' ''horisontaalityonto'' ''Penkkipunnerrus'' 4 6 (Some 2),
            mkSlot ''accessory'' ''horisontaaliveto'' ''Penkkiveto'' 3 8 (Some 2),
            mkSlot ''accessory'' ''hauisfleksio'' ''Hauiskaanto tanko'' 3 10 None],
         mkDay 3 ''volume''
           [mkSlot ''primary'' ''vertikaaliveto'' ''Lisapainoleuanveto'' 4 4 (Some 2),
            mkSlot ''accessory'' ''vertikaalityonto'' ''Pystypunnerrus'' 4 8 (Some 3),
            mkSlot ''accessory'' ''vertikaaliveto'' ''Ylatalja'' 3 10 (Some 3),
            mkSlot ''accessory'' ''ojentajaekstensio'' ''Tricep pushdown'' 3 12 None],
         mkDay 5 ''heavy''
           [mkSlot ''primary'' ''vertikaaliveto'' ''Lisapainoleuanveto'' 3 2 (Some 1),
            mkSlot ''accessory'' ''horisontaalityonto'' ''Chest press'' 4 8 (Some 2),
            mkSlot ''accessory'' ''horisontaaliveto'' ''Alatalja'' 3 10 (Some 2),
            mkSlot ''accessory'' ''hauisfleksio'' ''Hammer curl'' 3 10 None]]\<rparr>,
      \<lparr>wp_week = 4, days = Some
        [mkDay 1 ''heavy''
           [mkSlot ''primary'' ''vertikaaliveto'' ''Lisapainoleuanveto'' 3 3 (Some 4),
            mkSlot ''accessory'' ''horisontaalityonto'' ''Penkkipunnerrus'' 3 6 (Some 4),
            mkSlot ''accessory'' ''horisontaaliveto'' ''Penkkiveto'' 3 8 (Some 4)],
         mkDay 3 ''volume''
           [mkSlot ''primary'' ''vertikaaliveto'' ''Lisapainoleuanveto'' 3 5 (Some 4),
            mkSlot ''accessory'' ''vertikaalityonto'' ''Pystypunnerrus'' 3 8 (Some 4),
            mkSlot ''accessory'' ''vertikaaliveto'' ''Ylatalja'' 3 10 (Some 4)],
         mkDay 5 ''speed''
           [mkSlot ''primary'' ''vertikaaliveto'' ''Lisapainoleuanveto'' 4 2 (Some 4)]]\<rparr>]"

subsection \<open>Recorded sets, sessions, settings\<close>

text \<open>
  A recorded set. A missing effort-distance (\<open>actualVx\<close>, \<open>targetVx\<close>) is stored as
  \<open>null\<close>, as the set editor and the CSV import write it; \<open>None\<close> stands for it.
\<close>

record liftSet =
  s_movementId :: "string option"
  s_setRole :: string
  s_timestamp :: "string option"
  s_externalLoadKg :: "real option"
  s_reps :: "real option"
  s_targetReps :: "real option"
  s_actualVx :: "real option"
  s_targetVx :: "real option"

record session =
  ses_dateISO :: "dateISO option"

record settings =
  set_bodyweightKg :: "real option"
  set_maxDelta :: "real option"

definition vxNum :: "real option \<Rightarrow> real" where
  \<comment> \<open>a possibly \<open>null\<close> number in arithmetic and comparisons: \<open>null\<close> counts as 0\<close>
  "vxNum v = (case v of None \<Rightarrow> 0 | Some x \<Rightarrow> x)"

definition lastN :: "nat \<Rightarrow> 'a list \<Rightarrow> 'a list" where
  \<comment> \<open>\<open>arr.slice(-n)\<close>\<close>
  "lastN n xs = drop (length xs - n) xs"

subsection \<open>Mesocycle logic\<close>

definition getMesocycleWeek :: "mesocycle option \<Rightarrow> dateISO \<Rightarrow> int option" where
  "getMesocycleWeek m d =
     (case m of None \<Rightarrow> None
      | Some mc \<Rightarrow>
          (case startDateISO mc of None \<Rightarrow> None
           | Some sd \<Rightarrow>
               let start = dateMs sd; current = dateMs d;
                   diffDays = (current - start) div (1000 * 60 * 60 * 24)
               in if diffDays < 0 then None
                  else let weekNum = diffDays div 7 + 1
                       in if weekNum > weekCount mc then None else Some weekNum))"

definition getWeekDef :: "mesocycle option \<Rightarrow> int \<Rightarrow> weekDef option" where
  "getWeekDef m weekNum =
     (case m of None \<Rightarrow> None
      | Some mc \<Rightarrow>
          (case weekDefs mc of None \<Rightarrow> None
           | Some wds \<Rightarrow> find (\<lambda>w. wd_week w = weekNum) wds))"

definition nearestStep :: "int \<Rightarrow> dayPlan option \<times> int option \<Rightarrow> dayPlan \<Rightarrow> dayPlan option \<times> int option" where
  \<comment> \<open>one round of the nearest-day loop; \<open>bestDist = None\<close> is \<open>Infinity\<close>\<close>
  "nearestStep dayOfWeek acc d =
     (let dist = \<bar>(case dp_dayOfWeek d of None \<Rightarrow> 0 | Some k \<Rightarrow> k) - dayOfWeek\<bar>;
          wrapDist = min dist (7 - dist)
      in if (case snd acc of None \<Rightarrow> True | Some bestDist \<Rightarrow> wrapDist < bestDist)
         then (Some d, Some wrapDist) else acc)"

definition getTodayPlan :: "mesocycle option \<Rightarrow> int \<Rightarrow> int \<Rightarrow> dayPlan option" where
  "getTodayPlan m weekNum dayOfWeek =
     (case m of None \<Rightarrow> None
      | Some mc \<Rightarrow>
          (case weekPlans mc of None \<Rightarrow> None
           | Some wps \<Rightarrow>
               (case find (\<lambda>w. wp_week w = weekNum) wps of None \<Rightarrow> None
                | Some weekPlan \<Rightarrow>
                    (case days weekPlan of None \<Rightarrow> None
                     | Some ds \<Rightarrow>
                         if length ds = 0 then None
                         else (case find (\<lambda>d. dp_dayOfWeek d = Some dayOfWeek) ds of
                                 Some exact \<Rightarrow> Some exact
                               | None \<Rightarrow> fst (foldl (nearestStep dayOfWeek) (None, None) ds))))))"

subsection \<open>Vara feedback loop\<close>

record varaFB =
  suggestion :: "string option"
  fb_type :: "string option"

definition varaFeedback :: "liftSet list \<Rightarrow> varaFB" where
  "varaFeedback recentSets =
     (let withVara = filter (\<lambda>s. s_actualVx s \<noteq> None \<and> s_targetVx s \<noteq> None) recentSets
      in if length withVara < 3 then \<lparr>suggestion = None, fb_type = None\<rparr>
         else
           let last3 = lastN 3 withVara;
               allTooEasy = list_all (\<lambda>s. vxNum (s_actualVx s) > vxNum (s_targetVx s) + 1) last3;
               tooHard = (length (filter (\<lambda>s. vxNum (s_actualVx s) < vxNum (s_targetVx s) - 1) last3) \<ge> 2)
           in if allTooEasy then
                \<lparr>suggestion = Some ''Kuorma liian kevyt, harkitse +1-2 kg'', fb_type = Some ''too_easy''\<rparr>
              else if tooHard then
                \<lparr>suggestion = Some ''Kuorma liian raskas, harkitse -1-2 kg'', fb_type = Some ''too_hard''\<rparr>
              else \<lparr>suggestion = None, fb_type = None\<rparr>)"

definition varaTrendCorrection :: "liftSet list \<Rightarrow> real \<Rightarrow> real" where
  "varaTrendCorrection recentTopSets maxCorrection =
     (let withVara = lastN 6 (filter (\<lambda>s. s_actualVx s \<noteq> None \<and> s_targetVx s \<noteq> None) recentTopSets)
      in if length withVara < 4 then 0
         else
           let overshoots = map (\<lambda>s. vxNum (s_targetVx s) - vxNum (s_actualVx s)) withVara;
               meanOvr = avg overshoots
           in if meanOvr > 0.5 then clamp (meanOvr * 0.005) 0 maxCorrection
              else if meanOvr < - 0.5 then clamp (meanOvr * 0.005) (- maxCorrection) 0
              else 0)"

subsection \<open>Return from break\<close>

record breakInfo =
  breakDays :: "int option"
  modifier :: real
  forcedDayType :: "string option"
  message :: "string option"

definition breakAnalysis :: "dateISO \<Rightarrow> dateISO option \<Rightarrow> dateISO option \<Rightarrow> breakInfo" where
  \<comment> \<open>the first argument is what \<open>todayISO()\<close> returns\<close>
  "breakAnalysis tdy lastSessionDateISO todayDateISO =
     (case lastSessionDateISO of
        None \<Rightarrow> \<lparr>breakDays = None, modifier = 0, forcedDayType = None, message = None\<rparr>
      | Some lastD \<Rightarrow>
          let last = dateMs lastD;
              today = dateMs (case todayDateISO of None \<Rightarrow> tdy | Some t \<Rightarrow> t);
              bd = (today - last) div (1000 * 60 * 60 * 24)
          in if bd < 7 then
               \<lparr>breakDays = Some bd, modifier = 0, forcedDayType = None, message = None\<rparr>
             else if bd < 14 then
               \<lparr>breakDays = Some bd, modifier = - 0.05, forcedDayType = None,
                message = Some ''Viikon tauko - aloitetaan hieman kevyemmin''\<rparr>
             else if bd < 28 then
               \<lparr>breakDays = Some bd, modifier = - 0.10, forcedDayType = Some ''volume'',
                message = Some ''2 viikon tauko - volume-paiva ensin''\<rparr>
             else
               \<lparr>breakDays = Some bd, modifier = - 0.15, forcedDayType = Some ''volume'',
                message = Some ''Pitka tauko - aloitetaan konservatiivisesti, 1-2 viikossa normaaliin''\<rparr>)"

record resetInfo =
  reset :: bool
  reason :: "string option"

definition mesocycleBreakReset :: "mesocycle option \<Rightarrow> int \<Rightarrow> resetInfo" where
  "mesocycleBreakReset m skippedWeeks =
     (if skippedWeeks \<ge> 2 then
        \<lparr>reset = True, reason = Some ''2+ viikkoa skipattiin -> mesosykli nollattu viikkoon 1''\<rparr>
      else \<lparr>reset = False, reason = None\<rparr>)"

subsection \<open>Default day plan generator\<close>

definition generateDefaultDayPlan :: "string \<Rightarrow> weekDef option \<Rightarrow> bool \<Rightarrow> dayPlan" where
  "generateDefaultDayPlan dayType wd accessoryCapActive =
     (let primaryReps =
            intOr (map_option heavyReps wd)
              (if dayType = ''volume'' then 5 else if dayType = ''speed'' then 2 else 3);
          primaryVx =
            numOr (map_option heavyTargetVx wd)
              (if dayType = ''volume'' then 3 else if dayType = ''speed'' then 4 else 2);
          primarySets = (if dayType = ''volume'' then 5 else if dayType = ''speed'' then 4 else 3);
          slots0 = [mkSlot ''primary'' ''vertikaaliveto'' ''Lisapainoleuanveto''
                      primarySets primaryReps (Some primaryVx)];
          slots1 =
            (if dayType = ''heavy'' then
               slots0 @
               [mkSlot ''accessory'' ''horisontaalityonto'' ''Penkkipunnerrus'' 4 6 (Some 3),
                mkSlot ''accessory'' ''horisontaaliveto'' ''Penkkiveto'' 3 8 (Some 3),
                mkSlot ''accessory'' ''hauisfleksio'' ''Hauiskaanto tanko'' 3 10 None]
             else if dayType = ''volume'' then
               slots0 @
               [mkSlot ''accessory'' ''vertikaalityonto'' ''Pystypunnerrus'' 4 8 (Some 3),
                mkSlot ''accessory'' ''vertikaaliveto'' ''Ylatalja'' 3 10 (Some 3),
                mkSlot ''accessory'' ''ojentajaekstensio'' ''Tricep pushdown'' 3 12 None]
             else if dayType = ''speed'' then
               slots0 @
               [mkSlot ''accessory'' ''horisontaaliveto'' ''Alatalja'' 3 10 (Some 4),
                mkSlot ''accessory'' ''hauisfleksio'' ''Hammer curl'' 2 10 None]
             else slots0)
      in \<lparr>dp_dayOfWeek = None, dp_dayType = Some dayType, dp_slots = Some slots1\<rparr>)"

subsection \<open>Decision trace, store and run state\<close>

datatype jsval = JNum real | JStr string | JNull | JUndefined

type_synonym obj = "(string \<times> jsval) list"

record trace =
  traceId :: string
  tr_recId :: "string option"
  ruleId :: string
  before :: obj
  after :: obj
  why :: "string option"

record savedRec =
  sv_recId :: string
  sv_sessionId :: "string option"
  sv_variantId :: "string option"
  sv_targetSetRole :: string
  sv_targetLoadKg :: "real option"
  sv_deltaPct :: real
  sv_capLevel :: nat
  sv_mesocycleWeek :: int
  sv_dayType :: string
  sv_targetReps :: int
  sv_targetVx :: real
  sv_createdAtISO :: string

text \<open>
  The object stores of the data layer that \<open>recommend\<close> reads and writes. A list is in
  the order in which \<open>dbGetAll\<close> returns the store.
\<close>

record store =
  st_settings :: "settings option"
  st_mesocycles :: "mesocycle list"
  st_sessions :: "session list"
  st_sets :: "liftSet list"
  st_recommendations :: "savedRec list"
  st_decisionTraces :: "trace list"

text \<open>
  The state that one call of \<open>recommend\<close> threads through its steps: the number of
  \<open>uid()\<close> calls made so far, the local array \<open>traces\<close>, and the store.
\<close>

record run =
  uidCount :: nat
  traces :: "trace list"
  db :: store

definition dbPut :: "('a \<Rightarrow> string) \<Rightarrow> 'a \<Rightarrow> 'a list \<Rightarrow> 'a list" where
  \<comment> \<open>\<open>IDBObjectStore.put\<close>: replaces the record with the same key, else adds it\<close>
  "dbPut key x xs =
     (if list_ex (\<lambda>y. key y = key x) xs then map (\<lambda>y. if key y = key x then x else y) xs
      else xs @ [x])"

definition dateCompare :: "dateISO option \<Rightarrow> dateISO option \<Rightarrow> real" where
  \<comment> \<open>\<open>(a || "").localeCompare(b || "")\<close> on ISO dates: the empty string first, then by date\<close>
  "dateCompare a b =
     (case a of
        None \<Rightarrow> (case b of None \<Rightarrow> 0 | Some y \<Rightarrow> - 1)
      | Some x \<Rightarrow> (case b of None \<Rightarrow> 1 | Some y \<Rightarrow> if x < y then - 1 else if x = y then 0 else 1))"

definition getSettings :: "store \<Rightarrow> settings" where
  "getSettings st =
     (case st_settings st of
        Some s \<Rightarrow> s
      | None \<Rightarrow> \<lparr>set_bodyweightKg = Some 91, set_maxDelta = Some 0.25\<rparr>)"

definition getAllSessions :: "store \<Rightarrow> session list" where
  "getAllSessions st = jsSort (\<lambda>a b. dateCompare (ses_dateISO a) (ses_dateISO b)) (st_sessions st)"

definition getAllSets :: "store \<Rightarrow> liftSet list" where
  "getAllSets st = st_sets st"

definition getActiveMesocycle :: "store \<Rightarrow> mesocycle option" where
  "getActiveMesocycle st =
     (let all = st_mesocycles st
      in if length all = 0 then None
         else (case jsSort (\<lambda>a b. dateCompare (startDateISO b) (startDateISO a)) all of
                 [] \<Rightarrow> None
               | m # rest \<Rightarrow> Some m))"

definition trace :: "env \<Rightarrow> string \<Rightarrow> obj \<Rightarrow> obj \<Rightarrow> string option \<Rightarrow> run \<Rightarrow> run" where
  \<comment> \<open>the local function \<open>trace\<close> of \<open>recommend\<close>\<close>
  "trace env rule b a w r =
     r\<lparr>uidCount := uidCount r + 1,
       traces := traces r @
         [\<lparr>traceId = uid env (uidCount r), tr_recId = None, ruleId = rule,
           before = b, after = a, why = w\<rparr>]\<rparr>"

definition createDefaultMesocycle :: "env \<Rightarrow> dateISO option \<Rightarrow> run \<Rightarrow> mesocycle \<times> run" where
  "createDefaultMesocycle env sd r =
     (\<lparr>mesocycleId = uid env (uidCount r),
       startDateISO = Some (case sd of None \<Rightarrow> todayISO env | Some d \<Rightarrow> d),
       weekCount = 4,
       weekDefs = Some defaultWeekDefs,
       weekPlans = Some defaultWeekPlans\<rparr>,
      r\<lparr>uidCount := uidCount r + 1\<rparr>)"

definition saveMesocycle :: "env \<Rightarrow> mesocycle \<Rightarrow> run \<Rightarrow> mesocycle \<times> run" where
  \<comment> \<open>returns the object too: an empty identifier is assigned in place\<close>
  "saveMesocycle env m r =
     (let (m1, r1) =
            (if mesocycleId m = [] then
               (m\<lparr>mesocycleId := uid env (uidCount r)\<rparr>, r\<lparr>uidCount := uidCount r + 1\<rparr>)
             else (m, r))
      in (m1, r1\<lparr>db := (db r1)\<lparr>st_mesocycles := dbPut mesocycleId m1 (st_mesocycles (db r1))\<rparr>\<rparr>))"

definition saveRecommendation :: "env \<Rightarrow> savedRec \<Rightarrow> run \<Rightarrow> run" where
  "saveRecommendation env sv r =
     (let (sv1, r1) =
            (if sv_recId sv = [] then
               (sv\<lparr>sv_recId := uid env (uidCount r)\<rparr>, r\<lparr>uidCount := uidCount r + 1\<rparr>)
             else (sv, r))
      in r1\<lparr>db := (db r1)\<lparr>st_recommendations := dbPut sv_recId sv1 (st_recommendations (db r1))\<rparr>\<rparr>)"

definition saveDecisionTrace :: "env \<Rightarrow> trace \<Rightarrow> run \<Rightarrow> trace \<times> run" where
  "saveDecisionTrace env t r =
     (let (t1, r1) =
            (if traceId t = [] then
               (t\<lparr>traceId := uid env (uidCount r)\<rparr>, r\<lparr>uidCount := uidCount r + 1\<rparr>)
             else (t, r))
      in (t1, r1\<lparr>db := (db r1)\<lparr>st_decisionTraces := dbPut traceId t1 (st_decisionTraces (db r1))\<rparr>\<rparr>))"

fun saveAllTraces :: "env \<Rightarrow> trace list \<Rightarrow> run \<Rightarrow> trace list \<times> run" where
  \<comment> \<open>\<open>for (const t of traces) await saveDecisionTrace(t)\<close>\<close>
  "saveAllTraces env [] r = ([], r)"
| "saveAllTraces env (t # ts) r =
     (let (t1, r1) = saveDecisionTrace env t r;
          (ts1, r2) = saveAllTraces env ts r1
      in (t1 # ts1, r2))"

subsection \<open>recommend(): options and result\<close>

record options =
  opt_settings :: "settings option"
  opt_bodyweightKg :: "real option"
  opt_dateISO :: "dateISO option"
  opt_mesocycle :: "mesocycle option"
  opt_dayType :: "string option"
  opt_sessions :: "session list option"
  opt_allSets :: "liftSet list option"
  opt_primaryMovementId :: "string option"
  opt_readiness :: "readiness option"
  opt_dryRun :: bool

record recommendation =
  rec_recId :: string
  rec_dateISO :: dateISO
  rec_mesocycleId :: string
  rec_weekNum :: int
  rec_weekLabel :: string
  rec_dayType :: string
  rec_targetExternalLoad :: "real option"
  rec_targetReps :: int
  rec_targetVx :: real
  rec_setCount :: int
  rec_deltaPct :: real
  rec_capLevel :: nat
  rec_readiness :: readiness
  rec_e1rmSystem :: "real option"
  rec_e1rmExternal :: "real option"
  rec_bodyweightKg :: real
  rec_varaFeedback :: varaFB
  rec_breakInfo :: "breakInfo option"
  rec_accessoryCapActive :: bool
  rec_dayPlan :: dayPlan
  rec_traces :: "trace list"

definition jsNum :: "real option \<Rightarrow> jsval" where
  "jsNum v = (case v of None \<Rightarrow> JNull | Some x \<Rightarrow> JNum x)"

fun somes :: "'a option list \<Rightarrow> 'a list" where
  \<comment> \<open>\<open>.filter((v) => v !== null)\<close>\<close>
  "somes [] = []"
| "somes (None # xs) = somes xs"
| "somes (Some x # xs) = x # somes xs"

subsection \<open>recommend(): steps 1 to 3, mesocycle, week and break\<close>

definition newMesocycle :: "env \<Rightarrow> options \<Rightarrow> dateISO \<Rightarrow> run \<Rightarrow> mesocycle \<times> run" where
  \<comment> \<open>\<open>mesocycle = createDefaultMesocycle(dateISO); if (!options.dryRun) await saveMesocycle(mesocycle);\<close>\<close>
  "newMesocycle env opts dateISO r =
     (let (m, r1) = createDefaultMesocycle env (Some dateISO) r
      in if opt_dryRun opts then (m, r1) else saveMesocycle env m r1)"

definition stepMesocycle :: "env \<Rightarrow> options \<Rightarrow> dateISO \<Rightarrow> run \<Rightarrow> mesocycle \<times> run" where
  \<comment> \<open>1. Get mesocycle\<close>
  "stepMesocycle env opts dateISO r =
     (case (case opt_mesocycle opts of Some m \<Rightarrow> Some m | None \<Rightarrow> getActiveMesocycle (db r)) of
        Some m \<Rightarrow> (m, r)
      | None \<Rightarrow>
          let (m, r1) = newMesocycle env opts dateISO r
          in (m, trace env ''MESOCYCLE_CREATED'' [] [(''mesocycleId'', JStr (mesocycleId m))]
                   (Some ''Uusi mesosykli luotu automaattisesti'') r1))"

definition stepWeek :: "env \<Rightarrow> options \<Rightarrow> dateISO \<Rightarrow> mesocycle \<Rightarrow> run \<Rightarrow> (mesocycle \<times> int) \<times> run" where
  \<comment> \<open>2. Determine week and day: the week, and a new cycle past the end of the old one\<close>
  "stepWeek env opts dateISO m r =
     (case getMesocycleWeek (Some m) dateISO of
        Some weekNum \<Rightarrow> ((m, weekNum), r)
      | None \<Rightarrow>
          let (m1, r1) = newMesocycle env opts dateISO r
          in ((m1, 1), trace env ''MESOCYCLE_NEW_CYCLE'' [] [(''weekNum'', JNum 1)]
                         (Some ''Edellinen mesosykli paattyi -> uusi aloitettu'') r1))"

definition stepBreak ::
  "env \<Rightarrow> options \<Rightarrow> dateISO \<Rightarrow> breakInfo \<Rightarrow> mesocycle \<Rightarrow> int \<Rightarrow> string \<Rightarrow> run
     \<Rightarrow> (string \<times> mesocycle \<times> int) \<times> run" where
  \<comment> \<open>3. Break analysis: forced day type, and the mesocycle reset\<close>
  "stepBreak env opts dateISO bi m weekNum dayType r =
     (if modifier bi \<noteq> 0 then
        let (dayType1, r1) =
              (case forcedDayType bi of
                 None \<Rightarrow> (dayType, r)
               | Some forced \<Rightarrow>
                   if forced = [] then (dayType, r)
                   else (forced,
                         trace env ''RETURN_FROM_BREAK_DAYTYPE'' [(''dayType'', JStr dayType)]
                           [(''dayType'', JStr forced)] (message bi) r));
            r2 = trace env ''RETURN_FROM_BREAK'' [(''modifier'', JNum 0)]
                   [(''modifier'', JNum (modifier bi)),
                    (''breakDays'', jsNum (map_option real_of_int (breakDays bi)))]
                   (message bi) r1
        in (case breakDays bi of
              None \<Rightarrow> ((dayType1, m, weekNum), r2)
            | Some bd \<Rightarrow>
                if bd \<ge> 14 then
                  let skippedWeeks = bd div 7;
                      resetInfo = mesocycleBreakReset (Some m) skippedWeeks
                  in if reset resetInfo then
                       let (m1, r3) = newMesocycle env opts dateISO r2
                       in ((dayType1, m1, 1),
                           trace env ''MESOCYCLE_BREAK_RESET'' [] [(''weekNum'', JNum 1)]
                             (reason resetInfo) r3)
                     else ((dayType1, m, weekNum), r2)
                else ((dayType1, m, weekNum), r2))
      else ((dayType, m, weekNum), r))"

subsection \<open>recommend(): step 4, e1RM from recent top sets\<close>

definition topSetsOf :: "env \<Rightarrow> string option \<Rightarrow> liftSet list \<Rightarrow> liftSet list" where
  \<comment> \<open>the primary movement's top sets, sorted by timestamp\<close>
  "topSetsOf env primaryMovementId allSets =
     jsSort (\<lambda>a b. localeCompare env (strOr (s_timestamp a) []) (strOr (s_timestamp b) []))
       (filter
          (\<lambda>s. if strOr primaryMovementId [] \<noteq> [] \<and> s_movementId s \<noteq> Some (strOr primaryMovementId [])
               then False
               else s_setRole s = ''top'' \<or> s_setRole s = ''readiness_test'')
          allSets)"

definition setE1RM :: "real \<Rightarrow> liftSet \<Rightarrow> real option" where
  \<comment> \<open>the estimate of one top set\<close>
  "setE1RM bodyweightKg s =
     (let v = nullish (s_actualVx s) (nullish (s_targetVx s) 2)
      in e1rmSystem bodyweightKg (numOr (s_externalLoadKg s) 0)
           (numOr (s_reps s) (numOr (s_targetReps s) 3)) (Some v))"

definition currentE1RM :: "real \<Rightarrow> liftSet list \<Rightarrow> real option" where
  "currentE1RM bodyweightKg recentTopSets =
     (let e1rmValues = somes (map (setE1RM bodyweightKg) recentTopSets)
      in if length e1rmValues > 0 then Some (median e1rmValues) else None)"

subsection \<open>recommend(): steps 6 to 10, the adjustment\<close>

definition stepDelta ::
  "env \<Rightarrow> weekDef option \<Rightarrow> string \<Rightarrow> liftSet list \<Rightarrow> breakInfo \<Rightarrow> run \<Rightarrow> real \<times> run" where
  \<comment> \<open>6. deltaPct calculation, 7. Vara trend correction, 8. Break modifier\<close>
  "stepDelta env wd dayType recentTopSets bi r =
     (let dayMult = nullish (DAY_TYPE_MULTIPLIERS dayType) 1.0;
          base = (case wd of None \<Rightarrow> 0 | Some w \<Rightarrow> deltaPctBase w);
          d6 = base * dayMult;
          r6 = trace env ''DELTA_PCT_RAW'' [] [(''deltaPctRaw'', JNum d6)]
                 (Some (''deltaPct_raw = '' @ numStr env base @ '' x '' @ numStr env dayMult)) r;
          varaCorr = varaTrendCorrection recentTopSets 0.015;
          (d7, r7) =
            (if varaCorr \<noteq> 0 then
               (d6 + varaCorr,
                trace env ''VARA_TREND_CORRECTION'' [(''deltaPct'', JNum d6)]
                  [(''deltaPct'', JNum (d6 + varaCorr))]
                  (Some (''Vara-trendikorjaus: '' @ (if varaCorr > 0 then ''+'' else [])
                         @ toFixed env (varaCorr * 100) 2 @ ''%'')) r6)
             else (d6, r6))
      in if modifier bi \<noteq> 0 then
           (d7 + modifier bi,
            trace env ''BREAK_MODIFIER'' [(''deltaPct'', JNum d7)]
              [(''deltaPct'', JNum (d7 + modifier bi))]
              (Some (''Tauko-modifikaattori: '' @ numStr env (modifier bi * 100) @ ''%'')) r7)
         else (d7, r7))"

definition applyReadinessCap :: "env \<Rightarrow> nat \<Rightarrow> real \<Rightarrow> string \<Rightarrow> run \<Rightarrow> (real \<times> string) \<times> run" where
  \<comment> \<open>10. Apply readiness cap\<close>
  "applyReadinessCap env capLvl deltaPct dayType r =
     (if capLvl = 2 then
        let oldDelta = deltaPct;
            deltaPct1 = min deltaPct 0;
            (dayType1, r1) =
              (if dayType = ''heavy'' then
                 (''volume'',
                  trace env ''CAP_RED_DAYTYPE'' [(''dayType'', JStr dayType)]
                    [(''dayType'', JStr ''volume'')]
                    (Some ''RED readiness -> heavy vaihdettu volume:ksi'') r)
               else (dayType, r))
        in ((deltaPct1, dayType1),
            trace env ''CAP_RED'' [(''deltaPct'', JNum oldDelta)] [(''deltaPct'', JNum deltaPct1)]
              (Some ''RED readiness -> deltaPct capped to <= 0'') r1)
      else if capLvl = 1 then
        let oldDelta = deltaPct;
            deltaPct1 = deltaPct * 0.5
        in ((deltaPct1, dayType),
            trace env ''CAP_YELLOW'' [(''deltaPct'', JNum oldDelta)] [(''deltaPct'', JNum deltaPct1)]
              (Some ''YELLOW readiness -> deltaPct puolitettu'') r)
      else ((deltaPct, dayType), r))"

subsection \<open>recommend(): steps 11 to 15, load, sets, accessory cap and day plan\<close>

definition targetRepsVx :: "weekDef option \<Rightarrow> string \<Rightarrow> int \<times> real" where
  "targetRepsVx wd dayType =
     (case wd of
        Some w \<Rightarrow>
          (if dayType = ''heavy'' then heavyReps w else if dayType = ''volume'' then 5 else 2,
           if dayType = ''heavy'' then heavyTargetVx w else if dayType = ''volume'' then 3 else 4)
      | None \<Rightarrow> (3, 2))"

definition targetLoad :: "real option \<Rightarrow> int \<Rightarrow> real \<Rightarrow> real \<Rightarrow> real \<Rightarrow> real option" where
  \<comment> \<open>11. Compute target load\<close>
  "targetLoad currentE1RMSystem targetReps targetVx deltaPct bodyweightKg =
     (case currentE1RMSystem of
        Some e \<Rightarrow>
          let effectiveReps = real_of_int targetReps + targetVx;
              targetSystemLoad = e / (1 + effectiveReps / 30);
              rawExternal = targetSystemLoad * (1 + deltaPct) - bodyweightKg
          in Some (roundToHalf (max 0 rawExternal))
      | None \<Rightarrow> None)"

definition setCountOf :: "string \<Rightarrow> int" where
  \<comment> \<open>12. Set prescription\<close>
  "setCountOf dayType =
     (case DAY_TYPE_SET_RECIPES dayType of
        Some recipe \<Rightarrow> (case recipe of Range a b \<Rightarrow> a | Fixed n \<Rightarrow> n)
      | None \<Rightarrow> 3)"

definition activeChannels :: "readiness \<Rightarrow> channelR list" where
  \<comment> \<open>\<open>[channels.velocity, channels.hrv, channels.vara].filter((c) => c && c.class)\<close>\<close>
  "activeChannels rd =
     (let chs = (case rd_channels rd of
                   None \<Rightarrow> \<lparr>ch_velocity = None, ch_hrv = None, ch_vara = None\<rparr>
                 | Some c \<Rightarrow> c)
      in filter (\<lambda>c. cls c \<noteq> None) (somes [ch_velocity chs, ch_hrv chs, ch_vara chs]))"

definition stepAccessoryCap :: "env \<Rightarrow> nat \<Rightarrow> readiness \<Rightarrow> run \<Rightarrow> bool \<times> run" where
  \<comment> \<open>14. Accessory cap (independent from primary)\<close>
  "stepAccessoryCap env capLvl rd r =
     (if capLvl = 2 then
        let allBad = list_all (\<lambda>c. cls c = Some RED \<or> cls c = Some YELLOW) (activeChannels rd)
        in if allBad then
             (True,
              trace env ''ACCESSORY_CAP_ACTIVE'' [] [(''volumeReduction'', JStr ''30%'')]
                (Some ''3/3 kanavaa RED/YELLOW -> tukiliikkeet -30% volyymi'') r)
           else (False, r)
      else (False, r))"

text \<open>
  The product \<open>s.sets * 0.7\<close> is a product of doubles, and \<open>Math.round\<close> is applied to
  the double it yields. The double that the literal \<open>0.7\<close> denotes is
  \<open>3152519739159347 / 2^52\<close>; the product of two doubles is their exact product rounded
  to 53 significant bits, a tie going to the even significand. A set count is an integer
  of magnitude below \<open>2^53\<close>, a double itself, so that the product is far from overflow
  and from the subnormal range.
\<close>

fun bitLen :: "nat \<Rightarrow> nat" where
  \<comment> \<open>the number of binary digits\<close>
  "bitLen n = (if n = 0 then 0 else Suc (bitLen (n div 2)))"

declare bitLen.simps [simp del]

definition roundToDouble :: "nat \<Rightarrow> nat \<Rightarrow> real" where
  \<comment> \<open>the double nearest to \<open>N / 2^k\<close>, a tie to the even significand\<close>
  "roundToDouble N k =
     (let b = bitLen N
      in if b \<le> 53 then real N / 2 ^ k
         else let sh = b - 53;
                  q = N div 2 ^ sh;
                  rest = N mod 2 ^ sh;
                  q' = (if 2 * rest > 2 ^ sh \<or> (2 * rest = 2 ^ sh \<and> odd q) then q + 1 else q)
              in real (q' * 2 ^ sh) / 2 ^ k)"

definition times07 :: "int \<Rightarrow> real" where
  \<comment> \<open>the double \<open>n * 0.7\<close>\<close>
  "times07 n =
     (if n < 0 then - roundToDouble (nat (- n) * 3152519739159347) 52
      else roundToDouble (nat n * 3152519739159347) 52)"

definition capSlot :: "slot \<Rightarrow> slot" where
  "capSlot s =
     (if role s = ''accessory'' then
        s\<lparr>sl_sets := max 2 (mathRound (times07 (sl_sets s)))\<rparr>
      else s)"

definition ensureDayPlan ::
  "env \<Rightarrow> dayPlan option \<Rightarrow> string \<Rightarrow> weekDef option \<Rightarrow> bool \<Rightarrow> run \<Rightarrow> dayPlan \<times> run" where
  \<comment> \<open>15. Ensure dayPlan always has slots (fallback if mesocycle plan didn't match)\<close>
  "ensureDayPlan env dayPlan dayType wd accessoryCapActive r =
     (let generated = generateDefaultDayPlan dayType wd accessoryCapActive;
          withTrace =
            (generated,
             trace env ''DAY_PLAN_GENERATED'' []
               [(''dayType'', JStr dayType),
                (''slotsCount'',
                 JNum (real (length (case dp_slots generated of None \<Rightarrow> [] | Some ss \<Rightarrow> ss))))]
               (Some ''Paivan ohjelma generoitu oletusliikkeilla'') r)
      in case dayPlan of
           None \<Rightarrow> withTrace
         | Some p \<Rightarrow>
             (case dp_slots p of
                None \<Rightarrow> withTrace
              | Some ss \<Rightarrow> if length ss = 0 then withTrace else (p, r)))"

definition applyAccessoryCap :: "bool \<Rightarrow> dayPlan \<Rightarrow> dayPlan" where
  \<comment> \<open>Apply accessory cap: reduce accessory set counts by 30% if active\<close>
  "applyAccessoryCap accessoryCapActive dp =
     (if accessoryCapActive \<and> dp_slots dp \<noteq> None then
        dp\<lparr>dp_slots := map_option (map capSlot) (dp_slots dp)\<rparr>
      else dp)"

subsection \<open>recommend()\<close>

text \<open>
  \<open>recommend\<close> is one long function. The model cuts it into three consecutive blocks
  and the final assembly; each block returns the local variables it has assigned,
  with the run state.
\<close>

record frame =
  fr_settings :: settings
  fr_bodyweightKg :: real
  fr_dateISO :: dateISO
  fr_mesocycle :: mesocycle
  fr_weekNum :: int
  fr_weekDef :: "weekDef option"
  fr_dayPlan :: "dayPlan option"
  fr_dayType :: string
  fr_breakInfo :: breakInfo
  fr_recentTopSets :: "liftSet list"
  fr_e1rmSystem :: "real option"
  fr_e1rmExternal :: "real option"
  fr_readiness :: readiness

record prescription =
  pr_deltaPct :: real
  pr_dayType :: string
  pr_targetReps :: int
  pr_targetVx :: real
  pr_targetExternalLoad :: "real option"
  pr_setCount :: int
  pr_varaFB :: varaFB

definition recommendSetup :: "env \<Rightarrow> options \<Rightarrow> store \<Rightarrow> frame \<times> run" where
  \<comment> \<open>from the top of \<open>recommend\<close> to 5. Readiness\<close>
  "recommendSetup env opts st =
     (let settings = (case opt_settings opts of Some s \<Rightarrow> s | None \<Rightarrow> getSettings st);
          bodyweightKg = numOr (opt_bodyweightKg opts) (numOr (set_bodyweightKg settings) 91);
          dateISO = (case opt_dateISO opts of Some d \<Rightarrow> d | None \<Rightarrow> todayISO env);
          r0 = \<lparr>uidCount = 0, traces = [], db = st\<rparr>;
          (mesocycle1, r1) = stepMesocycle env opts dateISO r0;
          ((mesocycle2, weekNum2), r2) = stepWeek env opts dateISO mesocycle1 r1;
          weekDef = getWeekDef (Some mesocycle2) weekNum2;
          dayOfWeek = (if getDay dateISO = 0 then 7 else getDay dateISO);
          dayPlan = getTodayPlan (Some mesocycle2) weekNum2 dayOfWeek;
          dayType2 = strOr (case dayPlan of None \<Rightarrow> None | Some p \<Rightarrow> dp_dayType p)
                       (strOr (opt_dayType opts) ''heavy'');
          r2a = trace env ''MESOCYCLE_PHASE'' []
                  [(''weekNum'', JNum (real_of_int weekNum2)), (''dayType'', JStr dayType2),
                   (''label'', case weekDef of None \<Rightarrow> JUndefined | Some w \<Rightarrow> JStr (label w))]
                  (Some (''Viikko '' @ numStr env (real_of_int weekNum2) @ '': ''
                         @ strOr (map_option label weekDef) ''?'')) r2;
          sessions = (case opt_sessions opts of Some ss \<Rightarrow> ss | None \<Rightarrow> getAllSessions (db r2a));
          lastSessionDate = (if sessions = [] then None else ses_dateISO (last sessions));
          bi = breakAnalysis (todayISO env) lastSessionDate (Some dateISO);
          ((dayType3, mesocycle3, weekNum3), r3) =
            stepBreak env opts dateISO bi mesocycle2 weekNum2 dayType2 r2a;
          allSets = (case opt_allSets opts of Some ss \<Rightarrow> ss | None \<Rightarrow> getAllSets (db r3));
          topSets = topSetsOf env (opt_primaryMovementId opts) allSets;
          recentTopSets = lastN 6 topSets;
          currentE1RMSystem = currentE1RM bodyweightKg recentTopSets;
          currentE1RMExternal = map_option (\<lambda>e. max 0 (e - bodyweightKg)) currentE1RMSystem;
          r4 = trace env ''E1RM_COMPUTED'' []
                 [(''e1rmSystem'',
                   case currentE1RMSystem of None \<Rightarrow> JUndefined | Some e \<Rightarrow> JStr (toFixed env e 1)),
                  (''e1rmExternal'',
                   case currentE1RMExternal of None \<Rightarrow> JUndefined | Some e \<Rightarrow> JStr (toFixed env e 1)),
                  (''fromSets'', JNum (real (length recentTopSets)))]
                 (Some (''e1RM laskettu '' @ numStr env (real (length recentTopSets))
                        @ '' viimeisimmasta top-setista'')) r3;
          rd = (case opt_readiness opts of
                  Some x \<Rightarrow> x
                | None \<Rightarrow> \<lparr>combined = GREEN, capLevel = 0,
                           rd_channels = Some \<lparr>ch_velocity = None, ch_hrv = None, ch_vara = None\<rparr>\<rparr>)
      in (\<lparr>fr_settings = settings, fr_bodyweightKg = bodyweightKg, fr_dateISO = dateISO,
           fr_mesocycle = mesocycle3, fr_weekNum = weekNum3, fr_weekDef = weekDef,
           fr_dayPlan = dayPlan, fr_dayType = dayType3, fr_breakInfo = bi,
           fr_recentTopSets = recentTopSets, fr_e1rmSystem = currentE1RMSystem,
           fr_e1rmExternal = currentE1RMExternal, fr_readiness = rd\<rparr>,
          r4))"

definition recommendLoad :: "env \<Rightarrow> frame \<Rightarrow> run \<Rightarrow> prescription \<times> run" where
  \<comment> \<open>from 6. deltaPct calculation to 13. Vara feedback\<close>
  "recommendLoad env f r4 =
     (let capLvl = capLevel (fr_readiness f);
          (deltaPctRawValue, r8) =
            stepDelta env (fr_weekDef f) (fr_dayType f) (fr_recentTopSets f) (fr_breakInfo f) r4;
          maxDelta = numOr (set_maxDelta (fr_settings f)) 0.25;
          deltaPct9 = clamp deltaPctRawValue (- maxDelta) maxDelta;
          ((deltaPct, dayType), r10) = applyReadinessCap env capLvl deltaPct9 (fr_dayType f) r8;
          (targetReps, targetVx) = targetRepsVx (fr_weekDef f) dayType;
          targetExternalLoad =
            targetLoad (fr_e1rmSystem f) targetReps targetVx deltaPct (fr_bodyweightKg f);
          r11 = trace env ''TARGET_LOAD'' []
                  [(''targetExternalLoad'', jsNum targetExternalLoad),
                   (''deltaPct'', JStr (toFixed env (deltaPct * 100) 2 @ ''%'')),
                   (''targetReps'', JNum (real_of_int targetReps)),
                   (''targetVx'', JNum targetVx)]
                  (Some (''Ehdotettu kuorma: +''
                         @ (case targetExternalLoad of None \<Rightarrow> ''null'' | Some x \<Rightarrow> numStr env x)
                         @ '' kg'')) r10;
          setCount = setCountOf dayType;
          varaFB = varaFeedback (fr_recentTopSets f);
          r13 = (case suggestion varaFB of
                   None \<Rightarrow> r11
                 | Some sg \<Rightarrow>
                     if sg = [] then r11
                     else trace env ''VARA_FEEDBACK'' []
                            [(''suggestion'', JStr sg),
                             (''type'', case fb_type varaFB of None \<Rightarrow> JNull | Some t \<Rightarrow> JStr t)]
                            (Some sg) r11)
      in (\<lparr>pr_deltaPct = deltaPct, pr_dayType = dayType, pr_targetReps = targetReps,
           pr_targetVx = targetVx, pr_targetExternalLoad = targetExternalLoad,
           pr_setCount = setCount, pr_varaFB = varaFB\<rparr>,
          r13))"

definition recommendPlan :: "env \<Rightarrow> frame \<Rightarrow> prescription \<Rightarrow> run \<Rightarrow> (bool \<times> dayPlan) \<times> run" where
  \<comment> \<open>14. Accessory cap and 15. day plan\<close>
  "recommendPlan env f p r13 =
     (let (accessoryCapActive, r14) =
            stepAccessoryCap env (capLevel (fr_readiness f)) (fr_readiness f) r13;
          (dayPlan15, r15) =
            ensureDayPlan env (fr_dayPlan f) (pr_dayType p) (fr_weekDef f) accessoryCapActive r14
      in ((accessoryCapActive, applyAccessoryCap accessoryCapActive dayPlan15), r15))"

definition recommendFinish ::
  "env \<Rightarrow> options \<Rightarrow> frame \<Rightarrow> prescription \<Rightarrow> bool \<Rightarrow> dayPlan \<Rightarrow> run \<Rightarrow> recommendation \<times> store" where
  \<comment> \<open>Build recommendation; assign recId to all traces; save if not dry run\<close>
  "recommendFinish env opts f p accessoryCapActive dayPlanF r15 =
     (let recId = uid env (uidCount r15);
          r16 = r15\<lparr>uidCount := uidCount r15 + 1\<rparr>;
          traces1 = map (\<lambda>t. t\<lparr>tr_recId := Some recId\<rparr>) (traces r16);
          (tracesF, rF) =
            (if opt_dryRun opts then (traces1, r16)
             else saveAllTraces env traces1
                    (saveRecommendation env
                       \<lparr>sv_recId = recId, sv_sessionId = None, sv_variantId = None,
                        sv_targetSetRole = ''top'', sv_targetLoadKg = pr_targetExternalLoad p,
                        sv_deltaPct = pr_deltaPct p, sv_capLevel = capLevel (fr_readiness f),
                        sv_mesocycleWeek = fr_weekNum f, sv_dayType = pr_dayType p,
                        sv_targetReps = pr_targetReps p, sv_targetVx = pr_targetVx p,
                        sv_createdAtISO = nowISO env\<rparr> r16))
      in (\<lparr>rec_recId = recId, rec_dateISO = fr_dateISO f,
           rec_mesocycleId = mesocycleId (fr_mesocycle f),
           rec_weekNum = fr_weekNum f,
           rec_weekLabel = strOr (map_option label (fr_weekDef f)) ''?'',
           rec_dayType = pr_dayType p, rec_targetExternalLoad = pr_targetExternalLoad p,
           rec_targetReps = pr_targetReps p, rec_targetVx = pr_targetVx p,
           rec_setCount = pr_setCount p, rec_deltaPct = pr_deltaPct p,
           rec_capLevel = capLevel (fr_readiness f), rec_readiness = fr_readiness f,
           rec_e1rmSystem = fr_e1rmSystem f, rec_e1rmExternal = fr_e1rmExternal f,
           rec_bodyweightKg = fr_bodyweightKg f, rec_varaFeedback = pr_varaFB p,
           rec_breakInfo = (case breakDays (fr_breakInfo f) of
                              None \<Rightarrow> None
                            | Some bd \<Rightarrow> if bd \<ge> 7 then Some (fr_breakInfo f) else None),
           rec_accessoryCapActive = accessoryCapActive, rec_dayPlan = dayPlanF,
           rec_traces = tracesF\<rparr>,
          db rF))"

definition recommend :: "env \<Rightarrow> options \<Rightarrow> store \<Rightarrow> recommendation \<times> store" where
  "recommend env opts st =
     (let (f, r4) = recommendSetup env opts st;
          (p, r13) = recommendLoad env f r4;
          ((accessoryCapActive, dayPlanF), r15) = recommendPlan env f p r13
      in recommendFinish env opts f p accessoryCapActive dayPlanF r15)"

subsection \<open>The fusion rule as the specification states it\<close>

text \<open>
  Written from the specification's words, over the three channel classes (\<open>None\<close> for
  an inactive channel): the base class by the 2/3 rule, then the velocity veto, then
  the cap level.
\<close>

definition fusionRule ::
  "readiness_class option \<Rightarrow> readiness_class option \<Rightarrow> readiness_class option
     \<Rightarrow> readiness_class \<times> nat" where
  "fusionRule v h a =
     (let act = filter (\<lambda>c. c \<noteq> None) [v, h, a];
          n = (\<lambda>k. count_list act (Some k))
      in if act = [] then (GREEN, 0)
         else
           let base = (if n GREEN \<ge> 2 then GREEN
                       else if n RED \<ge> 2 \<or> (n RED \<ge> 1 \<and> n YELLOW \<ge> 1) then RED
                       else YELLOW);
               vetoed =
                 (if v = Some RED then
                    (if h = Some YELLOW \<or> h = Some RED \<or> a = Some YELLOW \<or> a = Some RED then RED
                     else if base = GREEN then YELLOW else base)
                  else base)
           in (vetoed, case vetoed of GREEN \<Rightarrow> 0 | YELLOW \<Rightarrow> 1 | RED \<Rightarrow> 2))"

subsection \<open>The accessory-cap condition as the specification states it\<close>

text \<open>
  All three readiness channels are individually classified YELLOW or RED.
\<close>

definition allThreeYellowOrRed :: "readiness \<Rightarrow> bool" where
  "allThreeYellowOrRed rd =
     (case rd_channels rd of
        None \<Rightarrow> False
      | Some c \<Rightarrow>
          list_all (\<lambda>ch. case ch of None \<Rightarrow> False
                          | Some x \<Rightarrow> cls x = Some YELLOW \<or> cls x = Some RED)
            [ch_velocity c, ch_hrv c, ch_vara c])"

text \<open>
  All three readiness channels are classified: none is inactive.
\<close>

definition allThreeClassified :: "readiness \<Rightarrow> bool" where
  "allThreeClassified rd =
     (case rd_channels rd of
        None \<Rightarrow> False
      | Some c \<Rightarrow>
          list_all (\<lambda>ch. case ch of None \<Rightarrow> False | Some x \<Rightarrow> cls x \<noteq> None)
            [ch_velocity c, ch_hrv c, ch_vara c])"

subsection \<open>Comparing two runs up to generated identifiers\<close>

text \<open>
  \<open>traceContent\<close> is what an audit reads in a trace entry: rule identifier, before and
  after state, rationale. \<open>eraseIds\<close> blanks the identifiers that \<open>uid()\<close> generates:
  \<open>recId\<close> and \<open>mesocycleId\<close> of the recommendation, \<open>traceId\<close> and \<open>recId\<close> of each
  trace entry, and the after-state of a \<open>MESOCYCLE_CREATED\<close> entry, which holds the
  identifier of the new mesocycle.
\<close>

definition traceContent :: "trace \<Rightarrow> string \<times> obj \<times> obj \<times> string option" where
  "traceContent t = (ruleId t, before t, after t, why t)"

definition eraseTrace :: "trace \<Rightarrow> trace" where
  "eraseTrace t =
     t\<lparr>traceId := [], tr_recId := None,
       after := (if ruleId t = ''MESOCYCLE_CREATED'' then [] else after t)\<rparr>"

definition eraseIds :: "recommendation \<Rightarrow> recommendation" where
  "eraseIds x =
     x\<lparr>rec_recId := [], rec_mesocycleId := [], rec_traces := map eraseTrace (rec_traces x)\<rparr>"

text \<open>
  Two hosts that agree on everything but \<open>uid()\<close> and the clock; two run states, two
  mesocycles and two frames that agree up to generated identifiers.
\<close>

definition hostAgree :: "env \<Rightarrow> env \<Rightarrow> bool" where
  "hostAgree e e' \<longleftrightarrow>
     todayISO e = todayISO e' \<and> numStr e = numStr e' \<and> toFixed e = toFixed e'
     \<and> localeCompare e = localeCompare e'"

definition runAgree :: "run \<Rightarrow> run \<Rightarrow> bool" where
  "runAgree r r' \<longleftrightarrow>
     uidCount r = uidCount r' \<and> db r = db r'
     \<and> map eraseTrace (traces r) = map eraseTrace (traces r')"

definition mesoAgree :: "env \<Rightarrow> env \<Rightarrow> mesocycle \<Rightarrow> mesocycle \<Rightarrow> bool" where
  "mesoAgree e e' m m' \<longleftrightarrow>
     m\<lparr>mesocycleId := []\<rparr> = m'\<lparr>mesocycleId := []\<rparr>
     \<and> (mesocycleId m = mesocycleId m'
        \<or> (\<exists>k. mesocycleId m = uid e k \<and> mesocycleId m' = uid e' k))"

definition frameAgree :: "env \<Rightarrow> env \<Rightarrow> frame \<Rightarrow> frame \<Rightarrow> bool" where
  "frameAgree e e' f f' \<longleftrightarrow>
     mesoAgree e e' (fr_mesocycle f) (fr_mesocycle f')
     \<and> f'\<lparr>fr_mesocycle := fr_mesocycle f\<rparr> = f"

subsection \<open>Concrete inputs\<close>


fun strCompare :: "string \<Rightarrow> string \<Rightarrow> real" where
  "strCompare [] [] = 0"
| "strCompare [] (y # ys) = - 1"
| "strCompare (x # xs) [] = 1"
| "strCompare (x # xs) (y # ys) =
     (if (of_char x :: nat) < of_char y then - 1
      else if (of_char y :: nat) < of_char x then 1
      else strCompare xs ys)"

definition demoEnv :: env where
  "demoEnv =
     \<lparr>uid = (\<lambda>k. ''id-'' @ replicate k (CHR ''x'')),
      todayISO = 20509,
      nowISO = ''2026-02-25T10:00:00.000Z'',
      numStr = (\<lambda>x. ''<number>''),
      toFixed = (\<lambda>x k. ''<number>''),
      localeCompare = strCompare\<rparr>"

definition emptyStore :: store where
  "emptyStore =
     \<lparr>st_settings = None, st_mesocycles = [], st_sessions = [], st_sets = [],
      st_recommendations = [], st_decisionTraces = []\<rparr>"

definition demoOpts :: options where
  "demoOpts =
     \<lparr>opt_settings = None, opt_bodyweightKg = Some 91, opt_dateISO = Some 20509,
      opt_mesocycle = None, opt_dayType = None, opt_sessions = None, opt_allSets = None,
      opt_primaryMovementId = None, opt_readiness = None, opt_dryRun = True\<rparr>"

definition chan :: "string \<Rightarrow> readiness_class option \<Rightarrow> channelR" where
  "chan n c = \<lparr>zscore = None, cls = c, channel = n\<rparr>"

definition demoEnv2 :: env where
  "demoEnv2 = demoEnv\<lparr>uid := (\<lambda>k. ''run2-'' @ replicate k (CHR ''y''))\<rparr>"

text \<open>
  The end-to-end scenario: week 2 of a cycle that began on Monday 2026-02-02, the heavy
  Monday 2026-02-09, no session history, readiness not given, bodyweight 91 and one top
  set whose estimate is 184.
\<close>

definition goldenMesocycle :: mesocycle where
  "goldenMesocycle =
     \<lparr>mesocycleId = ''meso-1'', startDateISO = Some 20486, weekCount = 4,
      weekDefs = Some defaultWeekDefs, weekPlans = Some defaultWeekPlans\<rparr>"

definition goldenSet :: liftSet where
  "goldenSet =
     \<lparr>s_movementId = Some ''pullup'', s_setRole = ''top'', s_timestamp = None,
      s_externalLoadKg = Some (467 / 7), s_reps = Some 3, s_targetReps = Some 3,
      s_actualVx = Some 2, s_targetVx = Some 2\<rparr>"

definition goldenOpts :: options where
  "goldenOpts =
     demoOpts\<lparr>opt_dateISO := Some 20493, opt_mesocycle := Some goldenMesocycle,
              opt_sessions := Some [], opt_allSets := Some [goldenSet]\<rparr>"

definition redOpts :: options where
  "redOpts =
     demoOpts\<lparr>opt_readiness :=
                Some (combineReadiness (chan ''velocity'' (Some RED)) (chan ''hrv'' (Some RED))
                        (chan ''vara'' (Some YELLOW)))\<rparr>"

definition yellowOpts :: options where
  "yellowOpts =
     demoOpts\<lparr>opt_readiness :=
                Some (combineReadiness (chan ''velocity'' (Some YELLOW)) (chan ''hrv'' (Some YELLOW))
                        (chan ''vara'' (Some YELLOW)))\<rparr>"

definition twoRedOpts :: options where
  "twoRedOpts =
     demoOpts\<lparr>opt_readiness :=
                Some (combineReadiness (chan ''velocity'' (Some RED)) (chan ''hrv'' (Some RED))
                        (chan ''vara'' None))\<rparr>"



definition prescriptionSummary ::
  "recommendation \<Rightarrow> int \<times> string \<times> nat \<times> real option \<times> real \<times> int \<times> real \<times> real option" where
  \<comment> \<open>week, day type, cap level, estimated max, adjustment, target reps, target
      effort-distance and target load of a recommendation\<close>
  "prescriptionSummary x =
     (rec_weekNum x, rec_dayType x, rec_capLevel x, rec_e1rmSystem x, rec_deltaPct x,
      rec_targetReps x, rec_targetVx x, rec_targetExternalLoad x)"

definition planSummary :: "recommendation \<Rightarrow> bool \<times> string \<times> (string \<times> int) list" where
  \<comment> \<open>accessory cap, day type, and role and set count of each slot of the day plan\<close>
  "planSummary x =
     (rec_accessoryCapActive x, rec_dayType x,
      map (\<lambda>s. (role s, sl_sets s)) (case dp_slots (rec_dayPlan x) of None \<Rightarrow> [] | Some ss \<Rightarrow> ss))"

section \<open>Properties\<close>

lemmas engine_defs =
  recommend_def recommendSetup_def recommendLoad_def recommendPlan_def recommendFinish_def
  stepMesocycle_def newMesocycle_def createDefaultMesocycle_def stepWeek_def stepBreak_def
  getActiveMesocycle_def getMesocycleWeek_def getWeekDef_def getTodayPlan_def nearestStep_def
  getAllSessions_def getAllSets_def getSettings_def breakAnalysis_def topSetsOf_def
  currentE1RM_def setE1RM_def stepDelta_def applyReadinessCap_def targetRepsVx_def
  targetLoad_def setCountOf_def varaFeedback_def varaTrendCorrection_def stepAccessoryCap_def
  activeChannels_def ensureDayPlan_def applyAccessoryCap_def generateDefaultDayPlan_def
  trace_def jsSort_def lastN_def dateMs_def getDay_def numOr_def strOr_def intOr_def nullish_def
  DAY_TYPE_MULTIPLIERS_def DAY_TYPE_SET_RECIPES_def defaultWeekDefs_def defaultWeekPlans_def
  mkDay_def mkSlot_def jsNum_def clamp_def

lemma combine_eq_fusion:
  "(combined (combineReadiness v h a), capLevel (combineReadiness v h a))
     = fusionRule (cls v) (cls h) (cls a)"
  apply (cases "cls v"; cases "cls h"; cases "cls a")
  subgoal by (simp add: combineReadiness_def fusionRule_def countClass_def Let_def)
  subgoal for x by (cases x; simp add: combineReadiness_def fusionRule_def countClass_def Let_def)
  subgoal for x by (cases x; simp add: combineReadiness_def fusionRule_def countClass_def Let_def)
  subgoal for x y by (cases x; cases y; simp add: combineReadiness_def fusionRule_def countClass_def Let_def)
  subgoal for x by (cases x; simp add: combineReadiness_def fusionRule_def countClass_def Let_def)
  subgoal for x y by (cases x; cases y; simp add: combineReadiness_def fusionRule_def countClass_def Let_def)
  subgoal for x y by (cases x; cases y; simp add: combineReadiness_def fusionRule_def countClass_def Let_def)
  subgoal for x y z by (cases x; cases y; cases z; simp add: combineReadiness_def fusionRule_def countClass_def Let_def)
  done

lemma fusion_red_other_bad:
  "h = Some YELLOW \<or> h = Some RED \<or> a = Some YELLOW \<or> a = Some RED
     \<Longrightarrow> fusionRule (Some RED) h a = (RED, 2)"
  by (auto simp add: fusionRule_def Let_def)

lemma fusion_two_red:
  "fusionRule (Some RED) (Some RED) c = (RED, 2)"
  "fusionRule (Some RED) c (Some RED) = (RED, 2)"
  "fusionRule c (Some RED) (Some RED) = (RED, 2)"
  by (cases c; simp add: fusionRule_def Let_def)+

text \<open>
  Claim C1. For every triple of channel results, \<open>combineReadiness\<close> returns the class
  and cap level of the fusion rule: GREEN with cap 0 without active channels, else the
  2/3 base class, escalated by the velocity veto, with cap 0/1/2 for GREEN/YELLOW/RED.
  Velocity RED with the other two GREEN gives YELLOW; velocity RED with one other YELLOW
  gives RED; three GREEN give GREEN and cap 0; two RED give RED and cap 2.
\<close>

theorem combineReadiness_fusion_rule:
  "(combined (combineReadiness v h a), capLevel (combineReadiness v h a))
      = fusionRule (cls v) (cls h) (cls a)
   \<and> combined (combineReadiness (v\<lparr>cls := Some RED\<rparr>) (h\<lparr>cls := Some GREEN\<rparr>) (a\<lparr>cls := Some GREEN\<rparr>))
      = YELLOW
   \<and> combined (combineReadiness (v\<lparr>cls := Some RED\<rparr>) (h\<lparr>cls := Some YELLOW\<rparr>) a) = RED
   \<and> combined (combineReadiness (v\<lparr>cls := Some RED\<rparr>) h (a\<lparr>cls := Some YELLOW\<rparr>)) = RED
   \<and> (combined (combineReadiness (v\<lparr>cls := Some GREEN\<rparr>) (h\<lparr>cls := Some GREEN\<rparr>) (a\<lparr>cls := Some GREEN\<rparr>)),
      capLevel (combineReadiness (v\<lparr>cls := Some GREEN\<rparr>) (h\<lparr>cls := Some GREEN\<rparr>) (a\<lparr>cls := Some GREEN\<rparr>)))
      = (GREEN, 0)
   \<and> (combined (combineReadiness (v\<lparr>cls := Some RED\<rparr>) (h\<lparr>cls := Some RED\<rparr>) a),
      capLevel (combineReadiness (v\<lparr>cls := Some RED\<rparr>) (h\<lparr>cls := Some RED\<rparr>) a)) = (RED, 2)
   \<and> (combined (combineReadiness (v\<lparr>cls := Some RED\<rparr>) h (a\<lparr>cls := Some RED\<rparr>)),
      capLevel (combineReadiness (v\<lparr>cls := Some RED\<rparr>) h (a\<lparr>cls := Some RED\<rparr>))) = (RED, 2)
   \<and> (combined (combineReadiness v (h\<lparr>cls := Some RED\<rparr>) (a\<lparr>cls := Some RED\<rparr>)),
      capLevel (combineReadiness v (h\<lparr>cls := Some RED\<rparr>) (a\<lparr>cls := Some RED\<rparr>))) = (RED, 2)"
proof -
  have eq: "\<And>x y z. (combined (combineReadiness x y z), capLevel (combineReadiness x y z))
      = fusionRule (cls x) (cls y) (cls z)"
    by (rule combine_eq_fusion)
  have c: "\<And>x y z. combined (combineReadiness x y z) = fst (fusionRule (cls x) (cls y) (cls z))"
    by (simp add: eq [symmetric])
  have k: "\<And>x y z. capLevel (combineReadiness x y z) = snd (fusionRule (cls x) (cls y) (cls z))"
    by (simp add: eq [symmetric])
  have g: "fusionRule (Some RED) (Some GREEN) (Some GREEN) = (YELLOW, 1)"
          "fusionRule (Some GREEN) (Some GREEN) (Some GREEN) = (GREEN, 0)"
    by (simp_all add: fusionRule_def Let_def)
  show ?thesis
    by (simp add: c k g fusion_red_other_bad fusion_two_red)
qed

text \<open>
  Claim C2. The code at the two boundaries: \<open>z = -0.50\<close> is classified GREEN and
  \<open>z = -1.00\<close> is classified YELLOW, where the claim and the repository's own test
  \<open>testZClassification\<close> expect YELLOW and RED.
\<close>

theorem classifyReadinessZ_boundaries:
  "classifyReadinessZ (- 0.50) = GREEN \<and> classifyReadinessZ (- 1.00) = YELLOW"
  by (simp add: classifyReadinessZ_def)

text \<open>
  Claim C3. The readiness cap step of \<open>recommend\<close> on a post-clamp adjustment \<open>d\<close>:
  cap level 2 yields \<open>min d 0\<close> and turns a heavy day into a volume day, cap level 1
  yields \<open>d / 2\<close> (0.025 becomes 0.0125), cap level 0 leaves \<open>d\<close> and the day type
  unchanged.
\<close>

theorem readiness_cap_step:
  "fst (applyReadinessCap env 2 d dt r) = (min d 0, if dt = ''heavy'' then ''volume'' else dt)
   \<and> fst (applyReadinessCap env 1 d dt r) = (d / 2, dt)
   \<and> fst (applyReadinessCap env 1 0.025 dt r) = (0.0125, dt)
   \<and> fst (applyReadinessCap env 0 d dt r) = (d, dt)"
  by (simp add: applyReadinessCap_def Let_def)

text \<open>
  Claim C4. Cap-only invariant: for every adjustment \<open>d\<close> and every cap level the capped
  adjustment lies between \<open>min d 0\<close> and \<open>max d 0\<close>, and the only other effect of the
  step is the heavy-to-volume downgrade at cap level 2.
\<close>

theorem cap_only_invariant:
  "min d 0 \<le> fst (fst (applyReadinessCap env c d dt r))
   \<and> fst (fst (applyReadinessCap env c d dt r)) \<le> max d 0
   \<and> snd (fst (applyReadinessCap env c d dt r)) = (if c = 2 \<and> dt = ''heavy'' then ''volume'' else dt)"
  by (simp add: applyReadinessCap_def Let_def min_def max_def)

lemma dateMs_diff_days: "(dateMs t - dateMs l) div 86400000 = t - l"
proof -
  have "dateMs t - dateMs l = (t - l) * 86400000"
    by (simp add: dateMs_def left_diff_distrib)
  then show ?thesis by simp
qed

text \<open>
  Claim C5. For a last-session date \<open>l\<close> and a current date \<open>t\<close>, \<open>breakAnalysis\<close>
  finds \<open>t - l\<close> break days; below 7 days the modifier is 0 with no forced day type,
  from 7 to 13 days it is -5% with no forced day type, from 14 to 27 days -10% with a
  forced volume day, from 28 days on -15% with a forced volume day. The cycle reset is
  flagged exactly when the break is at least 14 days, and then \<open>recommend\<close> restarts at
  week 1.
\<close>

theorem breakAnalysis_thresholds:
  "breakDays (breakAnalysis tdy (Some l) (Some t)) = Some (t - l)
   \<and> (t - l < 7 \<longrightarrow>
        modifier (breakAnalysis tdy (Some l) (Some t)) = 0
        \<and> forcedDayType (breakAnalysis tdy (Some l) (Some t)) = None)
   \<and> (7 \<le> t - l \<and> t - l < 14 \<longrightarrow>
        modifier (breakAnalysis tdy (Some l) (Some t)) = - 0.05
        \<and> forcedDayType (breakAnalysis tdy (Some l) (Some t)) = None)
   \<and> (14 \<le> t - l \<and> t - l < 28 \<longrightarrow>
        modifier (breakAnalysis tdy (Some l) (Some t)) = - 0.10
        \<and> forcedDayType (breakAnalysis tdy (Some l) (Some t)) = Some ''volume'')
   \<and> (28 \<le> t - l \<longrightarrow>
        modifier (breakAnalysis tdy (Some l) (Some t)) = - 0.15
        \<and> forcedDayType (breakAnalysis tdy (Some l) (Some t)) = Some ''volume'')
   \<and> reset (mesocycleBreakReset m ((t - l) div 7)) = (14 \<le> t - l)
   \<and> snd (snd (fst (stepBreak env opts t (breakAnalysis tdy (Some l) (Some t)) mc w dt r)))
        = (if 14 \<le> t - l then 1 else w)"
proof -
  let ?b = "breakAnalysis tdy (Some l) (Some t)"
  note bd = dateMs_diff_days
  have days: "breakDays ?b = Some (t - l)"
    by (simp add: breakAnalysis_def Let_def bd)
  have md: "modifier ?b =
      (if t - l < 7 then 0 else if t - l < 14 then - 0.05 else if t - l < 28 then - 0.10 else - 0.15)"
    by (simp add: breakAnalysis_def Let_def bd)
  have fd: "forcedDayType ?b = (if t - l < 14 then None else Some ''volume'')"
    by (simp add: breakAnalysis_def Let_def bd)
  have rs: "\<And>x. reset (mesocycleBreakReset x ((t - l) div 7)) = (14 \<le> t - l)"
    by (auto simp add: mesocycleBreakReset_def)
  have wk: "snd (snd (fst (stepBreak env opts t ?b mc w dt r))) = (if 14 \<le> t - l then 1 else w)"
    unfolding stepBreak_def
    by (simp add: days md fd rs Let_def split_beta)
  show ?thesis
    by (simp add: days md fd rs wk)
qed

theorem breakAnalysis_thresholds_witness:
  "modifier (breakAnalysis 0 (Some 20506) (Some 20509)) = 0
   \<and> forcedDayType (breakAnalysis 0 (Some 20506) (Some 20509)) = None
   \<and> modifier (breakAnalysis 0 (Some 20502) (Some 20509)) = - 0.05
   \<and> forcedDayType (breakAnalysis 0 (Some 20502) (Some 20509)) = None
   \<and> \<not> reset (mesocycleBreakReset None ((20509 - 20502) div 7))
   \<and> modifier (breakAnalysis 0 (Some 20495) (Some 20509)) = - 0.10
   \<and> forcedDayType (breakAnalysis 0 (Some 20495) (Some 20509)) = Some ''volume''
   \<and> reset (mesocycleBreakReset None ((20509 - 20495) div 7))
   \<and> modifier (breakAnalysis 0 (Some 20481) (Some 20509)) = - 0.15
   \<and> forcedDayType (breakAnalysis 0 (Some 20481) (Some 20509)) = Some ''volume''"
  using breakAnalysis_thresholds [of 0 20506 20509 None]
        breakAnalysis_thresholds [of 0 20502 20509 None]
        breakAnalysis_thresholds [of 0 20495 20509 None]
        breakAnalysis_thresholds [of 0 20481 20509 None]
  by simp

lemma golden_run:
  "prescriptionSummary (fst (recommend demoEnv goldenOpts emptyStore))
     = (2, ''heavy'', 0, Some 184, 0.025, 3, 2, Some 70.5)"
  by (simp add: engine_defs demoEnv_def demoOpts_def goldenOpts_def goldenSet_def
        goldenMesocycle_def emptyStore_def e1rmSystem_def median_def avg_def
        roundToHalf_def mathRound_def prescriptionSummary_def Let_def)

text \<open>
  Claim C7. With estimated system max 184, target reps 3, target effort-distance 2,
  adjustment +2.5% and bodyweight 91, the target external load of \<open>recommend\<close> is 70.5:
  within 69.5 to 71.5 and a multiple of 0.5. The end-to-end scenario gives these inputs
  and this load: week 2, heavy day, cap level 0, estimated max 184, adjustment 0.025,
  3 repetitions at effort-distance 2, load 70.5.
\<close>

theorem target_load_golden:
  "targetLoad (Some 184) 3 2 0.025 91 = Some 70.5
   \<and> (case targetLoad (Some 184) 3 2 0.025 91 of
         None \<Rightarrow> False
       | Some x \<Rightarrow> 69.5 \<le> x \<and> x \<le> 71.5 \<and> real_of_int \<lfloor>x * 2\<rfloor> = x * 2)
   \<and> prescriptionSummary (fst (recommend demoEnv goldenOpts emptyStore))
       = (2, ''heavy'', 0, Some 184, 0.025, 3, 2, Some 70.5)"
proof -
  have step: "targetLoad (Some 184) 3 2 0.025 91 = Some 70.5"
    by (simp add: targetLoad_def roundToHalf_def mathRound_def Let_def)
  show ?thesis
    using step golden_run by simp
qed

text \<open>
  Claim C9, as amended. \<open>e1rmSystem\<close> returns \<open>null\<close> exactly when bodyweight plus
  external load is not positive or the repetitions are below 1, and \<open>e1rmAccessory\<close>
  exactly when the load is not positive or the repetitions are below 1; on all other
  inputs they return a number.
\<close>

theorem e1rm_null_below_one_rep:
  "(e1rmSystem bw ext reps v = None) = (bw + ext \<le> 0 \<or> reps < 1)
   \<and> (e1rmAccessory w reps = None) = (w \<le> 0 \<or> reps < 1)"
  by (auto simp add: e1rmSystem_def e1rmAccessory_def Let_def)

text \<open>
  Claim C9 as stated fails between 0 and 1: with positive loads and half a repetition,
  a positive number of repetitions, both estimates are \<open>null\<close>.
\<close>

theorem e1rm_fractional_reps_counterexample:
  "(0::real) < 91 + 9 \<and> (0::real) < 1 / 2 \<and> e1rmSystem 91 9 (1 / 2) (Some 2) = None
   \<and> (0::real) < 80 \<and> e1rmAccessory 80 (1 / 2) = None"
  by (simp add: e1rmSystem_def e1rmAccessory_def Let_def)






lemma recommend_unfold:
  "recommend env opts st =
     (let S = recommendSetup env opts st;
          L = recommendLoad env (fst S) (snd S);
          Q = recommendPlan env (fst S) (fst L) (snd L)
      in recommendFinish env opts (fst S) (fst L) (fst (fst Q)) (snd (fst Q)) (snd Q))"
  by (simp add: recommend_def Let_def split_beta)

lemma finish_fields:
  "rec_accessoryCapActive (fst (recommendFinish env opts f p a d r)) = a"
  "rec_dayPlan (fst (recommendFinish env opts f p a d r)) = d"
  "rec_capLevel (fst (recommendFinish env opts f p a d r)) = capLevel (fr_readiness f)"
  "rec_readiness (fst (recommendFinish env opts f p a d r)) = fr_readiness f"
  "rec_dayType (fst (recommendFinish env opts f p a d r)) = pr_dayType p"
  "rec_e1rmSystem (fst (recommendFinish env opts f p a d r)) = fr_e1rmSystem f"
  by (simp_all add: recommendFinish_def Let_def split_beta)

lemma stepAccessoryCap_flag:
  "fst (stepAccessoryCap env c rd r) =
     (c = 2 \<and> list_all (\<lambda>x. cls x = Some RED \<or> cls x = Some YELLOW) (activeChannels rd))"
  by (simp add: stepAccessoryCap_def Let_def)

lemma ensureDayPlan_plan:
  "fst (ensureDayPlan env dp dt wd a r) = fst (ensureDayPlan env' dp dt wd a' r')"
  by (simp add: ensureDayPlan_def generateDefaultDayPlan_def Let_def split: option.splits)

lemma recommendPlan_fields:
  "fst (fst (recommendPlan env f p r)) =
     (capLevel (fr_readiness f) = 2
      \<and> list_all (\<lambda>x. cls x = Some RED \<or> cls x = Some YELLOW) (activeChannels (fr_readiness f)))"
  "snd (fst (recommendPlan env f p r)) =
     applyAccessoryCap (fst (fst (recommendPlan env f p r)))
       (fst (ensureDayPlan env (fr_dayPlan f) (pr_dayType p) (fr_weekDef f) False r'))"
proof -
  show "fst (fst (recommendPlan env f p r)) =
     (capLevel (fr_readiness f) = 2
      \<and> list_all (\<lambda>x. cls x = Some RED \<or> cls x = Some YELLOW) (activeChannels (fr_readiness f)))"
    by (simp add: recommendPlan_def Let_def split_beta stepAccessoryCap_flag)
  show "snd (fst (recommendPlan env f p r)) =
     applyAccessoryCap (fst (fst (recommendPlan env f p r)))
       (fst (ensureDayPlan env (fr_dayPlan f) (pr_dayType p) (fr_weekDef f) False r'))"
    unfolding recommendPlan_def Let_def split_beta fst_conv snd_conv
    by (rule arg_cong [where f = "applyAccessoryCap _"]) (rule ensureDayPlan_plan)
qed

lemma recommend_accessoryCapActive:
  "rec_accessoryCapActive (fst (recommend env opts st)) =
     (rec_capLevel (fst (recommend env opts st)) = 2
      \<and> list_all (\<lambda>x. cls x = Some RED \<or> cls x = Some YELLOW)
            (activeChannels (rec_readiness (fst (recommend env opts st)))))"
  by (simp add: recommend_unfold Let_def finish_fields recommendPlan_fields(1))

lemma recommend_dayPlan:
  "rec_dayPlan (fst (recommend env opts st)) =
     applyAccessoryCap (rec_accessoryCapActive (fst (recommend env opts st)))
       (fst (ensureDayPlan env (fr_dayPlan (fst (recommendSetup env opts st)))
               (rec_dayType (fst (recommend env opts st)))
               (fr_weekDef (fst (recommendSetup env opts st))) False r))"
  unfolding recommend_unfold Let_def finish_fields
  by (rule recommendPlan_fields(2))

lemma setup_readiness:
  "fr_readiness (fst (recommendSetup env opts st)) =
     (case opt_readiness opts of
        Some x \<Rightarrow> x
      | None \<Rightarrow> \<lparr>combined = GREEN, capLevel = 0,
                 rd_channels = Some \<lparr>ch_velocity = None, ch_hrv = None, ch_vara = None\<rparr>\<rparr>)"
proof -
  define d where "d = (case opt_dateISO opts of Some d \<Rightarrow> d | None \<Rightarrow> todayISO env)"
  obtain m1 r1 where A: "stepMesocycle env opts d \<lparr>uidCount = 0, traces = [], db = st\<rparr> = (m1, r1)"
    by (cases "stepMesocycle env opts d \<lparr>uidCount = 0, traces = [], db = st\<rparr>")
  obtain m2 w2 r2 where B: "stepWeek env opts d m1 r1 = ((m2, w2), r2)"
    by (cases "stepWeek env opts d m1 r1") auto
  show ?thesis
    unfolding recommendSetup_def
    by (simp add: Let_def A [unfolded d_def] B [unfolded d_def] split: prod.splits)
qed

lemma recommend_readiness:
  "rec_readiness (fst (recommend env opts st)) =
     (case opt_readiness opts of
        Some x \<Rightarrow> x
      | None \<Rightarrow> \<lparr>combined = GREEN, capLevel = 0,
                 rd_channels = Some \<lparr>ch_velocity = None, ch_hrv = None, ch_vara = None\<rparr>\<rparr>)"
  "rec_capLevel (fst (recommend env opts st)) = capLevel (rec_readiness (fst (recommend env opts st)))"
  by (simp_all add: recommend_unfold Let_def finish_fields setup_readiness)

lemma roundToDouble_nonneg: "0 \<le> roundToDouble N k"
  by (simp add: roundToDouble_def Let_def)

lemma times07_round_list:
  "list_all (\<lambda>n. mathRound (times07 n) = mathRound (real_of_int n * 0.7)) [2..44]"
  apply simp
  apply (simp add: times07_def roundToDouble_def bitLen.simps mathRound_def Let_def)
  done

lemma times07_round:
  assumes "n < 45"
  shows "max 2 (mathRound (times07 n)) = max 2 (mathRound (real_of_int n * 0.7))"
proof (cases "2 \<le> n")
  case True
  have "\<forall>n\<in>set [2..44]. mathRound (times07 n) = mathRound (real_of_int n * 0.7)"
    using times07_round_list by (simp only: list_all_iff)
  then have "\<forall>n\<in>{2..44}. mathRound (times07 n) = mathRound (real_of_int n * 0.7)"
    by (simp only: set_upto)
  moreover have "n \<in> {2..44}"
    using True assms by simp
  ultimately have "mathRound (times07 n) = mathRound (real_of_int n * 0.7)"
    by (rule bspec)
  then show ?thesis
    by (simp only:)
next
  case False
  then consider "n = 1" | "n = 0" | "n < 0"
    by linarith
  then show ?thesis
  proof cases
    case 1
    then show ?thesis
      by (simp add: times07_def roundToDouble_def bitLen.simps mathRound_def Let_def)
  next
    case 2
    then show ?thesis
      by (simp add: times07_def roundToDouble_def bitLen.simps mathRound_def Let_def)
  next
    case n: 3
    have "times07 n \<le> 0"
      using n roundToDouble_nonneg [of "nat (- n) * 3152519739159347" 52]
      by (simp add: times07_def)
    then have a: "mathRound (times07 n) \<le> 0"
      by (simp add: mathRound_def)
    have "real_of_int n * 0.7 \<le> 0"
      using n by (simp add: mult_le_0_iff)
    then have b: "mathRound (real_of_int n * 0.7) \<le> 0"
      by (simp add: mathRound_def)
    show ?thesis
      using a b by simp
  qed
qed

text \<open>
  From 45 sets on the double product rounds differently from the exact one: 45 * 0.7 is
  the double just below 31.5, and the capped count is 31, not 32.
\<close>

lemma capSlot_45_sets:
  "sl_sets (capSlot (mkSlot ''accessory'' c m 45 8 None)) = 31
   \<and> max 2 (mathRound (real_of_int 45 * 0.7)) = 32"
  by (simp add: capSlot_def mkSlot_def times07_def roundToDouble_def bitLen.simps mathRound_def
        Let_def)

lemma allThree_active:
  assumes "allThreeClassified rd"
  shows "list_all (\<lambda>c. cls c = Some RED \<or> cls c = Some YELLOW) (activeChannels rd)
           = allThreeYellowOrRed rd"
proof -
  obtain c where c: "rd_channels rd = Some c"
    using assms by (cases "rd_channels rd") (simp_all add: allThreeClassified_def)
  obtain x y z where xyz: "ch_velocity c = Some x" "ch_hrv c = Some y" "ch_vara c = Some z"
    using assms c
    by (cases "ch_velocity c"; cases "ch_hrv c"; cases "ch_vara c")
       (simp_all add: allThreeClassified_def)
  have cl: "cls x \<noteq> None" "cls y \<noteq> None" "cls z \<noteq> None"
    using assms c xyz by (simp_all add: allThreeClassified_def)
  show ?thesis
    using cl by (auto simp add: activeChannels_def allThreeYellowOrRed_def c xyz Let_def)
qed

text \<open>
  Claim C6, as amended. The accessory-volume cap of a \<open>recommend\<close> run is active only at
  cap level 2, that is when the combined readiness is RED; when all three channels are
  classified, it is active exactly when the cap level is 2 and all three are YELLOW or
  RED. The day plan of the recommendation is the plan of step 15 with the cap applied:
  when the cap is active every slot of role \<open>accessory\<close> gets
  \<open>max(2, Math.round(sets * 0.7))\<close> sets, which for a set count below 45 is the exact
  product rounded and floored at 2, and every other slot is unchanged; when the cap is
  inactive the plan is unchanged.
\<close>

theorem accessory_cap_rule:
  "(rec_accessoryCapActive (fst (recommend env opts st)) \<longrightarrow>
      rec_capLevel (fst (recommend env opts st)) = 2)
   \<and> (allThreeClassified (rec_readiness (fst (recommend env opts st))) \<longrightarrow>
        rec_accessoryCapActive (fst (recommend env opts st)) =
          (rec_capLevel (fst (recommend env opts st)) = 2
           \<and> allThreeYellowOrRed (rec_readiness (fst (recommend env opts st)))))
   \<and> rec_dayPlan (fst (recommend env opts st)) =
       applyAccessoryCap (rec_accessoryCapActive (fst (recommend env opts st)))
         (fst (ensureDayPlan env (fr_dayPlan (fst (recommendSetup env opts st)))
                 (rec_dayType (fst (recommend env opts st)))
                 (fr_weekDef (fst (recommendSetup env opts st))) False r))
   \<and> applyAccessoryCap True dp = dp\<lparr>dp_slots := map_option (map capSlot) (dp_slots dp)\<rparr>
   \<and> applyAccessoryCap False dp = dp
   \<and> (role s \<noteq> ''accessory'' \<longrightarrow> capSlot s = s)
   \<and> (role s = ''accessory'' \<and> sl_sets s < 45 \<longrightarrow>
        capSlot s = s\<lparr>sl_sets := max 2 (mathRound (real_of_int (sl_sets s) * 0.7))\<rparr>)"
proof -
  have a: "applyAccessoryCap True dp = dp\<lparr>dp_slots := map_option (map capSlot) (dp_slots dp)\<rparr>"
    by (cases "dp_slots dp") (simp_all add: applyAccessoryCap_def)
  have b: "applyAccessoryCap False dp = dp"
    by (simp add: applyAccessoryCap_def)
  have c: "role s \<noteq> ''accessory'' \<longrightarrow> capSlot s = s"
    by (simp add: capSlot_def)
  have d: "role s = ''accessory'' \<and> sl_sets s < 45 \<longrightarrow>
        capSlot s = s\<lparr>sl_sets := max 2 (mathRound (real_of_int (sl_sets s) * 0.7))\<rparr>"
    using times07_round [of "sl_sets s"] by (simp add: capSlot_def)
  have e: "rec_accessoryCapActive (fst (recommend env opts st)) \<longrightarrow>
      rec_capLevel (fst (recommend env opts st)) = 2"
    using recommend_accessoryCapActive [of env opts st] by blast
  have f: "allThreeClassified (rec_readiness (fst (recommend env opts st))) \<longrightarrow>
        rec_accessoryCapActive (fst (recommend env opts st)) =
          (rec_capLevel (fst (recommend env opts st)) = 2
           \<and> allThreeYellowOrRed (rec_readiness (fst (recommend env opts st))))"
    using recommend_accessoryCapActive [of env opts st]
          allThree_active [of "rec_readiness (fst (recommend env opts st))"]
    by blast
  show ?thesis
    using recommend_dayPlan [of env opts st r] a b c d e f
    by blast
qed

text \<open>
  Claim C6 as stated fails where the combined readiness is not RED: three YELLOW channels
  (combined YELLOW, cap level 1) leave the cap inactive.
\<close>

theorem accessory_cap_counterexample:
  "allThreeYellowOrRed (rec_readiness (fst (recommend demoEnv yellowOpts emptyStore)))
   \<and> rec_capLevel (fst (recommend demoEnv yellowOpts emptyStore)) = 1
   \<and> \<not> rec_accessoryCapActive (fst (recommend demoEnv yellowOpts emptyStore))"
  by (simp add: recommend_accessoryCapActive recommend_readiness allThreeYellowOrRed_def
        yellowOpts_def demoOpts_def combineReadiness_def countClass_def chan_def Let_def)

text \<open>
  With velocity RED, HRV RED and the third channel inactive (combined RED, cap level 2)
  the cap is active: step 14 filters the inactive channel out before it tests the
  others, although its comment and the text of its trace speak of all three channels.
\<close>

lemma accessory_cap_inactive_channel:
  "\<not> allThreeClassified (rec_readiness (fst (recommend demoEnv twoRedOpts emptyStore)))
   \<and> rec_capLevel (fst (recommend demoEnv twoRedOpts emptyStore)) = 2
   \<and> rec_accessoryCapActive (fst (recommend demoEnv twoRedOpts emptyStore))"
  by (simp add: recommend_accessoryCapActive recommend_readiness allThreeClassified_def
        twoRedOpts_def demoOpts_def combineReadiness_def countClass_def chan_def
        activeChannels_def Let_def)

lemma red_run:
  "planSummary (fst (recommend demoEnv redOpts emptyStore))
     = (True, ''volume'',
        [(''primary'', 5), (''accessory'', 3), (''accessory'', 2), (''accessory'', 2)])"
  by (simp add: engine_defs demoEnv_def demoOpts_def redOpts_def emptyStore_def chan_def
        combineReadiness_def countClass_def capSlot_def times07_def roundToDouble_def
        bitLen.simps mathRound_def planSummary_def Let_def)

theorem accessory_cap_rule_witness:
  "allThreeClassified (rec_readiness (fst (recommend demoEnv redOpts emptyStore)))
   \<and> allThreeYellowOrRed (rec_readiness (fst (recommend demoEnv redOpts emptyStore)))
   \<and> rec_capLevel (fst (recommend demoEnv redOpts emptyStore)) = 2
   \<and> rec_accessoryCapActive (fst (recommend demoEnv redOpts emptyStore))
   \<and> planSummary (fst (recommend demoEnv redOpts emptyStore))
       = (True, ''volume'',
          [(''primary'', 5), (''accessory'', 3), (''accessory'', 2), (''accessory'', 2)])
   \<and> role (mkSlot ''primary'' ''vertikaaliveto'' ''Lisapainoleuanveto'' 5 5 (Some 3)) \<noteq> ''accessory''
   \<and> capSlot (mkSlot ''primary'' ''vertikaaliveto'' ''Lisapainoleuanveto'' 5 5 (Some 3))
       = mkSlot ''primary'' ''vertikaaliveto'' ''Lisapainoleuanveto'' 5 5 (Some 3)
   \<and> role (mkSlot ''accessory'' ''vertikaalityonto'' ''Pystypunnerrus'' 4 8 (Some 3)) = ''accessory''
   \<and> sl_sets (mkSlot ''accessory'' ''vertikaalityonto'' ''Pystypunnerrus'' 4 8 (Some 3)) < 45
   \<and> capSlot (mkSlot ''accessory'' ''vertikaalityonto'' ''Pystypunnerrus'' 4 8 (Some 3))
       = mkSlot ''accessory'' ''vertikaalityonto'' ''Pystypunnerrus'' 3 8 (Some 3)"
proof -
  have cl: "allThreeClassified (rec_readiness (fst (recommend demoEnv redOpts emptyStore)))"
    by (simp add: recommend_readiness allThreeClassified_def redOpts_def demoOpts_def
          combineReadiness_def countClass_def chan_def Let_def)
  have yr: "allThreeYellowOrRed (rec_readiness (fst (recommend demoEnv redOpts emptyStore)))"
    by (simp add: recommend_readiness allThreeYellowOrRed_def redOpts_def demoOpts_def
          combineReadiness_def countClass_def chan_def Let_def)
  have ac: "rec_accessoryCapActive (fst (recommend demoEnv redOpts emptyStore))"
    using red_run by (simp add: planSummary_def)
  have lv: "rec_capLevel (fst (recommend demoEnv redOpts emptyStore)) = 2"
    using accessory_cap_rule [where env = demoEnv and opts = redOpts and st = emptyStore] ac
    by blast
  have pr: "capSlot (mkSlot ''primary'' ''vertikaaliveto'' ''Lisapainoleuanveto'' 5 5 (Some 3))
       = mkSlot ''primary'' ''vertikaaliveto'' ''Lisapainoleuanveto'' 5 5 (Some 3)"
    using accessory_cap_rule
            [where s = "mkSlot ''primary'' ''vertikaaliveto'' ''Lisapainoleuanveto'' 5 5 (Some 3)"]
    by (simp add: mkSlot_def)
  have acc: "capSlot (mkSlot ''accessory'' ''vertikaalityonto'' ''Pystypunnerrus'' 4 8 (Some 3))
       = mkSlot ''accessory'' ''vertikaalityonto'' ''Pystypunnerrus'' 3 8 (Some 3)"
    using accessory_cap_rule
            [where s = "mkSlot ''accessory'' ''vertikaalityonto'' ''Pystypunnerrus'' 4 8 (Some 3)"]
    by (simp add: mkSlot_def mathRound_def)
  show ?thesis
    using cl yr ac lv pr acc by (simp add: red_run mkSlot_def)
qed

lemma runAgree_refl: "runAgree r r"
  by (simp add: runAgree_def)

lemma mesoAgree_refl: "mesoAgree e e' m m"
  by (simp add: mesoAgree_def)

lemma mesoAgree_fields:
  assumes "mesoAgree e e' m m'"
  shows "startDateISO m' = startDateISO m" "weekCount m' = weekCount m"
        "weekDefs m' = weekDefs m" "weekPlans m' = weekPlans m"
proof -
  have eq: "m\<lparr>mesocycleId := []\<rparr> = m'\<lparr>mesocycleId := []\<rparr>"
    using assms by (simp add: mesoAgree_def)
  show "startDateISO m' = startDateISO m"
    using arg_cong [OF eq, of startDateISO] by simp
  show "weekCount m' = weekCount m"
    using arg_cong [OF eq, of weekCount] by simp
  show "weekDefs m' = weekDefs m"
    using arg_cong [OF eq, of weekDefs] by simp
  show "weekPlans m' = weekPlans m"
    using arg_cong [OF eq, of weekPlans] by simp
qed

lemma mesoAgree_reads:
  assumes "mesoAgree e e' m m'"
  shows "getMesocycleWeek (Some m') d = getMesocycleWeek (Some m) d"
        "getWeekDef (Some m') w = getWeekDef (Some m) w"
        "getTodayPlan (Some m') w k = getTodayPlan (Some m) w k"
  unfolding getMesocycleWeek_def getWeekDef_def getTodayPlan_def option.case
    mesoAgree_fields [OF assms]
  by (rule refl)+

lemma trace_agree:
  assumes "runAgree r r'" and "a = a' \<or> rule = ''MESOCYCLE_CREATED''"
  shows "runAgree (trace e rule b a w r) (trace e' rule b a' w r')"
  using assms by (auto simp add: runAgree_def trace_def eraseTrace_def)

lemma newMesocycle_agree:
  assumes "opt_dryRun opts" and "runAgree r r'"
  shows "mesoAgree e e' (fst (newMesocycle e opts d r)) (fst (newMesocycle e' opts d r'))"
    and "runAgree (snd (newMesocycle e opts d r)) (snd (newMesocycle e' opts d r'))"
proof -
  have c: "uidCount r' = uidCount r"
    using assms(2) by (simp add: runAgree_def)
  show "mesoAgree e e' (fst (newMesocycle e opts d r)) (fst (newMesocycle e' opts d r'))"
    using assms(1) c
    by (auto simp add: newMesocycle_def createDefaultMesocycle_def mesoAgree_def)
  show "runAgree (snd (newMesocycle e opts d r)) (snd (newMesocycle e' opts d r'))"
    using assms
    by (simp add: newMesocycle_def createDefaultMesocycle_def runAgree_def)
qed

lemma stepMesocycle_agree:
  assumes "opt_dryRun opts" and "runAgree r r'"
  shows "mesoAgree e e' (fst (stepMesocycle e opts d r)) (fst (stepMesocycle e' opts d r'))"
    and "runAgree (snd (stepMesocycle e opts d r)) (snd (stepMesocycle e' opts d r'))"
proof -
  have c: "db r' = db r"
    using assms(2) by (simp add: runAgree_def)
  note n = newMesocycle_agree [OF assms, where e = e and e' = e' and d = d]
  show "mesoAgree e e' (fst (stepMesocycle e opts d r)) (fst (stepMesocycle e' opts d r'))"
    using n by (simp add: stepMesocycle_def c split_beta mesoAgree_refl split: option.splits)
  show "runAgree (snd (stepMesocycle e opts d r)) (snd (stepMesocycle e' opts d r'))"
    using n assms(2)
    by (simp add: stepMesocycle_def c split_beta trace_agree split: option.splits)
qed

lemma stepWeek_agree:
  assumes "opt_dryRun opts" and "mesoAgree e e' m m'" and "runAgree r r'"
  shows "mesoAgree e e' (fst (fst (stepWeek e opts d m r))) (fst (fst (stepWeek e' opts d m' r')))"
    and "snd (fst (stepWeek e' opts d m' r')) = snd (fst (stepWeek e opts d m r))"
    and "runAgree (snd (stepWeek e opts d m r)) (snd (stepWeek e' opts d m' r'))"
proof -
  note n = newMesocycle_agree [OF assms(1,3), where e = e and e' = e' and d = d]
  note g = mesoAgree_reads(1) [OF assms(2)]
  show "mesoAgree e e' (fst (fst (stepWeek e opts d m r))) (fst (fst (stepWeek e' opts d m' r')))"
    using n assms(2) by (simp add: stepWeek_def g split_beta split: option.splits)
  show "snd (fst (stepWeek e' opts d m' r')) = snd (fst (stepWeek e opts d m r))"
    by (simp add: stepWeek_def g split_beta split: option.splits)
  show "runAgree (snd (stepWeek e opts d m r)) (snd (stepWeek e' opts d m' r'))"
    using n assms(3) by (simp add: stepWeek_def g split_beta trace_agree split: option.splits)
qed

lemma stepBreak_agree:
  assumes "opt_dryRun opts" and "mesoAgree e e' m m'" and "runAgree r r'"
  shows "fst (fst (stepBreak e' opts d bi m' w dt r')) = fst (fst (stepBreak e opts d bi m w dt r))"
    and "mesoAgree e e' (fst (snd (fst (stepBreak e opts d bi m w dt r))))
           (fst (snd (fst (stepBreak e' opts d bi m' w dt r'))))"
    and "snd (snd (fst (stepBreak e' opts d bi m' w dt r')))
           = snd (snd (fst (stepBreak e opts d bi m w dt r)))"
    and "runAgree (snd (stepBreak e opts d bi m w dt r)) (snd (stepBreak e' opts d bi m' w dt r'))"
proof -
  define r1 where "r1 = (case forcedDayType bi of None \<Rightarrow> r
     | Some forced \<Rightarrow> if forced = [] then r
         else trace e ''RETURN_FROM_BREAK_DAYTYPE'' [(''dayType'', JStr dt)]
                [(''dayType'', JStr forced)] (message bi) r)"
  define r1' where "r1' = (case forcedDayType bi of None \<Rightarrow> r'
     | Some forced \<Rightarrow> if forced = [] then r'
         else trace e' ''RETURN_FROM_BREAK_DAYTYPE'' [(''dayType'', JStr dt)]
                [(''dayType'', JStr forced)] (message bi) r')"
  have a1: "runAgree r1 r1'"
    using assms(3) by (simp add: r1_def r1'_def trace_agree split: option.splits)
  define r2 where "r2 = trace e ''RETURN_FROM_BREAK'' [(''modifier'', JNum 0)]
                   [(''modifier'', JNum (modifier bi)),
                    (''breakDays'', jsNum (map_option real_of_int (breakDays bi)))]
                   (message bi) r1"
  define r2' where "r2' = trace e' ''RETURN_FROM_BREAK'' [(''modifier'', JNum 0)]
                   [(''modifier'', JNum (modifier bi)),
                    (''breakDays'', jsNum (map_option real_of_int (breakDays bi)))]
                   (message bi) r1'"
  have a2: "runAgree r2 r2'"
    using a1 by (simp add: r2_def r2'_def trace_agree)
  note n = newMesocycle_agree [OF assms(1) a2, where e = e and e' = e' and d = d]
  have u: "stepBreak e opts d bi m w dt r =
     (if modifier bi \<noteq> 0 then
        let dayType1 = (case forcedDayType bi of None \<Rightarrow> dt
                         | Some forced \<Rightarrow> if forced = [] then dt else forced)
        in (case breakDays bi of
              None \<Rightarrow> ((dayType1, m, w), r2)
            | Some bd \<Rightarrow>
                if bd \<ge> 14 then
                  if reset (mesocycleBreakReset (Some m) (bd div 7)) then
                       ((dayType1, fst (newMesocycle e opts d r2), 1),
                           trace e ''MESOCYCLE_BREAK_RESET'' [] [(''weekNum'', JNum 1)]
                             (reason (mesocycleBreakReset (Some m) (bd div 7)))
                             (snd (newMesocycle e opts d r2)))
                     else ((dayType1, m, w), r2)
                else ((dayType1, m, w), r2))
      else ((dt, m, w), r))"
    by (simp add: stepBreak_def r2_def r1_def Let_def split_beta split: option.splits)
  have u': "stepBreak e' opts d bi m' w dt r' =
     (if modifier bi \<noteq> 0 then
        let dayType1 = (case forcedDayType bi of None \<Rightarrow> dt
                         | Some forced \<Rightarrow> if forced = [] then dt else forced)
        in (case breakDays bi of
              None \<Rightarrow> ((dayType1, m', w), r2')
            | Some bd \<Rightarrow>
                if bd \<ge> 14 then
                  if reset (mesocycleBreakReset (Some m') (bd div 7)) then
                       ((dayType1, fst (newMesocycle e' opts d r2'), 1),
                           trace e' ''MESOCYCLE_BREAK_RESET'' [] [(''weekNum'', JNum 1)]
                             (reason (mesocycleBreakReset (Some m') (bd div 7)))
                             (snd (newMesocycle e' opts d r2')))
                     else ((dayType1, m', w), r2')
                else ((dayType1, m', w), r2'))
      else ((dt, m', w), r'))"
    by (simp add: stepBreak_def r2'_def r1'_def Let_def split_beta split: option.splits)
  have mb: "\<And>x y k. mesocycleBreakReset x k = mesocycleBreakReset y k"
    by (simp add: mesocycleBreakReset_def)
  show "fst (fst (stepBreak e' opts d bi m' w dt r')) = fst (fst (stepBreak e opts d bi m w dt r))"
    unfolding u u' by (simp add: Let_def mb [where x = "Some m'" and y = "Some m"] split: option.splits)
  show "mesoAgree e e' (fst (snd (fst (stepBreak e opts d bi m w dt r))))
           (fst (snd (fst (stepBreak e' opts d bi m' w dt r'))))"
    unfolding u u' using n assms(2)
    by (simp add: Let_def mb [where x = "Some m'" and y = "Some m"] split: option.splits)
  show "snd (snd (fst (stepBreak e' opts d bi m' w dt r')))
           = snd (snd (fst (stepBreak e opts d bi m w dt r)))"
    unfolding u u' by (simp add: Let_def mb [where x = "Some m'" and y = "Some m"] split: option.splits)
  show "runAgree (snd (stepBreak e opts d bi m w dt r)) (snd (stepBreak e' opts d bi m' w dt r'))"
    unfolding u u' using n a2 assms(3)
    by (simp add: Let_def mb [where x = "Some m'" and y = "Some m"] trace_agree split: option.splits)
qed

lemma db_trace: "db (trace e rule b a w r) = db r"
  by (simp add: trace_def)

lemma db_newMesocycle:
  "opt_dryRun opts \<Longrightarrow> db (snd (newMesocycle e opts d r)) = db r"
  by (simp add: newMesocycle_def createDefaultMesocycle_def)

lemma db_stepMesocycle:
  "opt_dryRun opts \<Longrightarrow> db (snd (stepMesocycle e opts d r)) = db r"
  by (simp add: stepMesocycle_def split_beta db_trace db_newMesocycle split: option.splits)

lemma db_stepWeek:
  "opt_dryRun opts \<Longrightarrow> db (snd (stepWeek e opts d m r)) = db r"
  by (simp add: stepWeek_def split_beta db_trace db_newMesocycle split: option.splits)

lemma db_stepBreak:
  "opt_dryRun opts \<Longrightarrow> db (snd (stepBreak e opts d bi m w dt r)) = db r"
  by (simp add: stepBreak_def split_beta Let_def db_trace db_newMesocycle split: option.splits)

lemma db_stepDelta: "db (snd (stepDelta e wd dt rts bi r)) = db r"
  by (simp add: stepDelta_def split_beta Let_def db_trace)

lemma db_applyReadinessCap: "db (snd (applyReadinessCap e c x dt r)) = db r"
  by (simp add: applyReadinessCap_def split_beta Let_def db_trace)

lemma db_stepAccessoryCap: "db (snd (stepAccessoryCap e c rd r)) = db r"
  by (simp add: stepAccessoryCap_def Let_def db_trace)

lemma db_ensureDayPlan: "db (snd (ensureDayPlan e dp dt wd a r)) = db r"
  by (simp add: ensureDayPlan_def Let_def db_trace split: option.splits)

lemma db_recommendLoad: "db (snd (recommendLoad e f r)) = db r"
  by (simp add: recommendLoad_def split_beta Let_def db_trace db_stepDelta db_applyReadinessCap
        split: option.splits)

lemma db_recommendPlan: "db (snd (recommendPlan e f p r)) = db r"
  by (simp add: recommendPlan_def split_beta Let_def db_stepAccessoryCap db_ensureDayPlan)

lemma setup_agree:
  assumes dry: "opt_dryRun opts" and host: "hostAgree e e'"
  shows "frameAgree e e' (fst (recommendSetup e opts st)) (fst (recommendSetup e' opts st))"
    and "runAgree (snd (recommendSetup e opts st)) (snd (recommendSetup e' opts st))"
    and "db (snd (recommendSetup e opts st)) = st"
proof -
  define bw where
    "bw = numOr (opt_bodyweightKg opts)
            (numOr (set_bodyweightKg (case opt_settings opts of Some s \<Rightarrow> s | None \<Rightarrow> getSettings st)) 91)"

  define d where "d = (case opt_dateISO opts of Some d \<Rightarrow> d | None \<Rightarrow> todayISO e)"
  obtain m1 r1 where A: "stepMesocycle e opts d \<lparr>uidCount = 0, traces = [], db = st\<rparr> = (m1, r1)"
    by (cases "stepMesocycle e opts d \<lparr>uidCount = 0, traces = [], db = st\<rparr>")
  obtain m2 w2 r2 where B: "stepWeek e opts d m1 r1 = ((m2, w2), r2)"
    by (cases "stepWeek e opts d m1 r1") auto
  define wd where "wd = getWeekDef (Some m2) w2"
  define dp where
    "dp = getTodayPlan (Some m2) w2 (if getDay d = 0 then 7 else getDay d)"
  define dt2 where
    "dt2 = strOr (case dp of None \<Rightarrow> None | Some p \<Rightarrow> dp_dayType p)
              (strOr (opt_dayType opts) ''heavy'')"
  define r2a where
    "r2a = trace e ''MESOCYCLE_PHASE'' []
                  [(''weekNum'', JNum (real_of_int w2)), (''dayType'', JStr dt2),
                   (''label'', case wd of None \<Rightarrow> JUndefined | Some w \<Rightarrow> JStr (label w))]
                  (Some (''Viikko '' @ numStr e (real_of_int w2) @ '': ''
                         @ strOr (map_option label wd) ''?'')) r2"
  define ses where
    "ses = (case opt_sessions opts of Some ss \<Rightarrow> ss | None \<Rightarrow> getAllSessions (db r2a))"
  define bi where
    "bi = breakAnalysis (todayISO e) (if ses = [] then None else ses_dateISO (last ses)) (Some d)"
  obtain dt3 m3 w3 r3 where
    C: "stepBreak e opts d bi m2 w2 dt2 r2a = ((dt3, m3, w3), r3)"
    by (cases "stepBreak e opts d bi m2 w2 dt2 r2a") auto
  define rts where
    "rts = lastN 6 (topSetsOf e (opt_primaryMovementId opts)
                      (case opt_allSets opts of Some ss \<Rightarrow> ss | None \<Rightarrow> getAllSets (db r3)))"
  have U: "recommendSetup e opts st =
     (\<lparr>fr_settings = (case opt_settings opts of Some s \<Rightarrow> s | None \<Rightarrow> getSettings st),
       fr_bodyweightKg = bw, fr_dateISO = d,
       fr_mesocycle = m3, fr_weekNum = w3, fr_weekDef = wd,
       fr_dayPlan = dp, fr_dayType = dt3, fr_breakInfo = bi,
       fr_recentTopSets = rts, fr_e1rmSystem = currentE1RM bw rts,
       fr_e1rmExternal = map_option (\<lambda>x. max 0 (x - bw)) (currentE1RM bw rts),
       fr_readiness = (case opt_readiness opts of
                  Some x \<Rightarrow> x
                | None \<Rightarrow> \<lparr>combined = GREEN, capLevel = 0,
                           rd_channels = Some \<lparr>ch_velocity = None, ch_hrv = None, ch_vara = None\<rparr>\<rparr>)\<rparr>,
      trace e ''E1RM_COMPUTED'' []
                 [(''e1rmSystem'',
                   case currentE1RM bw rts of None \<Rightarrow> JUndefined | Some x \<Rightarrow> JStr (toFixed e x 1)),
                  (''e1rmExternal'',
                   case map_option (\<lambda>x. max 0 (x - bw)) (currentE1RM bw rts) of
                     None \<Rightarrow> JUndefined | Some x \<Rightarrow> JStr (toFixed e x 1)),
                  (''fromSets'', JNum (real (length rts)))]
                 (Some (''e1RM laskettu '' @ numStr e (real (length rts))
                        @ '' viimeisimmasta top-setista'')) r3)"
    unfolding recommendSetup_def bw_def rts_def
    by (simp only: Let_def prod.case
          A [unfolded d_def] B [unfolded d_def]
          C [unfolded bi_def ses_def r2a_def dt2_def dp_def wd_def d_def]
          bi_def ses_def r2a_def dt2_def dp_def wd_def d_def)

  define d' where "d' = (case opt_dateISO opts of Some d \<Rightarrow> d | None \<Rightarrow> todayISO e')"
  obtain m1' r1' where A': "stepMesocycle e' opts d' \<lparr>uidCount = 0, traces = [], db = st\<rparr> = (m1', r1')"
    by (cases "stepMesocycle e' opts d' \<lparr>uidCount = 0, traces = [], db = st\<rparr>")
  obtain m2' w2' r2' where B': "stepWeek e' opts d' m1' r1' = ((m2', w2'), r2')"
    by (cases "stepWeek e' opts d' m1' r1'") auto
  define wd' where "wd' = getWeekDef (Some m2') w2'"
  define dp' where
    "dp' = getTodayPlan (Some m2') w2' (if getDay d' = 0 then 7 else getDay d')"
  define dt2' where
    "dt2' = strOr (case dp' of None \<Rightarrow> None | Some p \<Rightarrow> dp_dayType p)
              (strOr (opt_dayType opts) ''heavy'')"
  define r2a' where
    "r2a' = trace e' ''MESOCYCLE_PHASE'' []
                  [(''weekNum'', JNum (real_of_int w2')), (''dayType'', JStr dt2'),
                   (''label'', case wd' of None \<Rightarrow> JUndefined | Some w \<Rightarrow> JStr (label w))]
                  (Some (''Viikko '' @ numStr e' (real_of_int w2') @ '': ''
                         @ strOr (map_option label wd') ''?'')) r2'"
  define ses' where
    "ses' = (case opt_sessions opts of Some ss \<Rightarrow> ss | None \<Rightarrow> getAllSessions (db r2a'))"
  define bi' where
    "bi' = breakAnalysis (todayISO e') (if ses' = [] then None else ses_dateISO (last ses')) (Some d')"
  obtain dt3' m3' w3' r3' where
    C': "stepBreak e' opts d' bi' m2' w2' dt2' r2a' = ((dt3', m3', w3'), r3')"
    by (cases "stepBreak e' opts d' bi' m2' w2' dt2' r2a'") auto
  define rts' where
    "rts' = lastN 6 (topSetsOf e' (opt_primaryMovementId opts)
                      (case opt_allSets opts of Some ss \<Rightarrow> ss | None \<Rightarrow> getAllSets (db r3')))"
  have U': "recommendSetup e' opts st =
     (\<lparr>fr_settings = (case opt_settings opts of Some s \<Rightarrow> s | None \<Rightarrow> getSettings st),
       fr_bodyweightKg = bw, fr_dateISO = d',
       fr_mesocycle = m3', fr_weekNum = w3', fr_weekDef = wd',
       fr_dayPlan = dp', fr_dayType = dt3', fr_breakInfo = bi',
       fr_recentTopSets = rts', fr_e1rmSystem = currentE1RM bw rts',
       fr_e1rmExternal = map_option (\<lambda>x. max 0 (x - bw)) (currentE1RM bw rts'),
       fr_readiness = (case opt_readiness opts of
                  Some x \<Rightarrow> x
                | None \<Rightarrow> \<lparr>combined = GREEN, capLevel = 0,
                           rd_channels = Some \<lparr>ch_velocity = None, ch_hrv = None, ch_vara = None\<rparr>\<rparr>)\<rparr>,
      trace e' ''E1RM_COMPUTED'' []
                 [(''e1rmSystem'',
                   case currentE1RM bw rts' of None \<Rightarrow> JUndefined | Some x \<Rightarrow> JStr (toFixed e' x 1)),
                  (''e1rmExternal'',
                   case map_option (\<lambda>x. max 0 (x - bw)) (currentE1RM bw rts') of
                     None \<Rightarrow> JUndefined | Some x \<Rightarrow> JStr (toFixed e' x 1)),
                  (''fromSets'', JNum (real (length rts')))]
                 (Some (''e1RM laskettu '' @ numStr e' (real (length rts'))
                        @ '' viimeisimmasta top-setista'')) r3')"
    unfolding recommendSetup_def bw_def rts'_def
    by (simp only: Let_def prod.case
          A' [unfolded d'_def] B' [unfolded d'_def]
          C' [unfolded bi'_def ses'_def r2a'_def dt2'_def dp'_def wd'_def d'_def]
          bi'_def ses'_def r2a'_def dt2'_def dp'_def wd'_def d'_def)

  have h: "todayISO e' = todayISO e" "numStr e' = numStr e" "toFixed e' = toFixed e"
          "localeCompare e' = localeCompare e"
    using host by (simp_all add: hostAgree_def)
  have dd: "d' = d"
    unfolding d_def d'_def h by (rule refl)
  note s1 = stepMesocycle_agree [OF dry runAgree_refl [of "\<lparr>uidCount = 0, traces = [], db = st\<rparr>"], where e = e and e' = e' and d = d,
                unfolded A A' [unfolded dd] fst_conv snd_conv]
  note s2 = stepWeek_agree [OF dry s1, where d = d, unfolded B B' [unfolded dd] fst_conv snd_conv]
  note rd2 = mesoAgree_reads [OF s2(1)]
  have wdd: "wd' = wd"
    unfolding wd_def wd'_def s2(2) rd2 by (rule refl)
  have dpd: "dp' = dp"
    unfolding dp_def dp'_def s2(2) rd2 dd by (rule refl)
  have dtd: "dt2' = dt2"
    unfolding dt2_def dt2'_def dpd by (rule refl)
  have ra: "runAgree r2a r2a'"
    unfolding r2a_def r2a'_def wdd dtd s2(2) h
    by (rule trace_agree [OF s2(3)]) simp
  have dbd: "db r2a' = db r2a"
    using ra by (simp add: runAgree_def)
  have bid: "bi' = bi"
    unfolding bi_def bi'_def ses_def ses'_def dbd h dd by (rule refl)
  note s3 = stepBreak_agree [OF dry s2(1) ra, where d = d and bi = bi and w = w2 and dt = dt2,
                unfolded C C' [unfolded dd bid s2(2) dtd] fst_conv snd_conv]
  have db3: "db r3' = db r3"
    using s3(4) by (simp add: runAgree_def)
  have rtd: "rts' = rts"
    unfolding rts_def rts'_def db3 topSetsOf_def h by (rule refl)
  show "frameAgree e e' (fst (recommendSetup e opts st)) (fst (recommendSetup e' opts st))"
    unfolding U U' fst_conv frameAgree_def
    using s3(2) by (simp add: dd wdd dpd bid rtd s3(1) s3(3))
  show "runAgree (snd (recommendSetup e opts st)) (snd (recommendSetup e' opts st))"
    unfolding U U' snd_conv rtd h
    by (rule trace_agree [OF s3(4)]) simp
  have "db r1 = st"
    using db_stepMesocycle [OF dry, where e = e and d = d
            and r = "\<lparr>uidCount = 0, traces = [], db = st\<rparr>"]
    by (simp add: A)
  moreover have "db r2 = db r1"
    using db_stepWeek [OF dry, where e = e and d = d and m = m1 and r = r1] by (simp add: B)
  moreover have "db r3 = db r2a"
    using db_stepBreak [OF dry, where e = e and d = d and bi = bi and m = m2 and w = w2
            and dt = dt2 and r = r2a] by (simp add: C)
  moreover have "db r2a = db r2"
    by (simp add: r2a_def db_trace)
  ultimately show "db (snd (recommendSetup e opts st)) = st"
    unfolding U snd_conv by (simp add: db_trace)
qed

lemma stepDelta_agree:
  assumes "hostAgree e e'" and "runAgree r r'"
  shows "fst (stepDelta e' wd dt rts bi r') = fst (stepDelta e wd dt rts bi r)"
    and "runAgree (snd (stepDelta e wd dt rts bi r)) (snd (stepDelta e' wd dt rts bi r'))"
proof -
  have h: "numStr e' = numStr e" "toFixed e' = toFixed e"
    using assms(1) by (simp_all add: hostAgree_def)
  show "fst (stepDelta e' wd dt rts bi r') = fst (stepDelta e wd dt rts bi r)"
    by (simp add: stepDelta_def Let_def split_beta)
  show "runAgree (snd (stepDelta e wd dt rts bi r)) (snd (stepDelta e' wd dt rts bi r'))"
    using assms(2) by (simp add: stepDelta_def Let_def split_beta h trace_agree)
qed

lemma applyReadinessCap_agree:
  assumes "runAgree r r'"
  shows "fst (applyReadinessCap e' c x dt r') = fst (applyReadinessCap e c x dt r)"
    and "runAgree (snd (applyReadinessCap e c x dt r)) (snd (applyReadinessCap e' c x dt r'))"
proof -
  show "fst (applyReadinessCap e' c x dt r') = fst (applyReadinessCap e c x dt r)"
    by (simp add: applyReadinessCap_def Let_def split_beta)
  show "runAgree (snd (applyReadinessCap e c x dt r)) (snd (applyReadinessCap e' c x dt r'))"
    using assms by (simp add: applyReadinessCap_def Let_def split_beta trace_agree)
qed

lemma recommendLoad_frame: "recommendLoad e (f\<lparr>fr_mesocycle := m\<rparr>) r = recommendLoad e f r"
  by (simp add: recommendLoad_def)

lemma recommendPlan_frame: "recommendPlan e (f\<lparr>fr_mesocycle := m\<rparr>) p r = recommendPlan e f p r"
  by (simp add: recommendPlan_def)

lemma load_agree:
  assumes host: "hostAgree e e'" and ra: "runAgree r r'"
  shows "fst (recommendLoad e' f r') = fst (recommendLoad e f r)"
    and "runAgree (snd (recommendLoad e f r)) (snd (recommendLoad e' f r'))"
proof -
  have h: "numStr e' = numStr e" "toFixed e' = toFixed e"
    using host by (simp_all add: hostAgree_def)
  define X where
    "X = stepDelta e (fr_weekDef f) (fr_dayType f) (fr_recentTopSets f) (fr_breakInfo f) r"
  define X' where
    "X' = stepDelta e' (fr_weekDef f) (fr_dayType f) (fr_recentTopSets f) (fr_breakInfo f) r'"
  note sx = stepDelta_agree [OF host ra, where wd = "fr_weekDef f" and dt = "fr_dayType f"
               and rts = "fr_recentTopSets f" and bi = "fr_breakInfo f", folded X_def X'_def]
  define c where
    "c = clamp (fst X) (- numOr (set_maxDelta (fr_settings f)) 0.25)
           (numOr (set_maxDelta (fr_settings f)) 0.25)"
  define Y where "Y = applyReadinessCap e (capLevel (fr_readiness f)) c (fr_dayType f) (snd X)"
  define Y' where "Y' = applyReadinessCap e' (capLevel (fr_readiness f)) c (fr_dayType f) (snd X')"
  note sy = applyReadinessCap_agree [OF sx(2), where e = e and e' = e'
               and c = "capLevel (fr_readiness f)" and x = c and dt = "fr_dayType f",
               folded Y_def Y'_def]
  have u: "recommendLoad e f r =
      (let deltaPct = fst (fst Y); dayType = snd (fst Y);
           targetReps = fst (targetRepsVx (fr_weekDef f) dayType);
           targetVx = snd (targetRepsVx (fr_weekDef f) dayType);
           targetExternalLoad =
             targetLoad (fr_e1rmSystem f) targetReps targetVx deltaPct (fr_bodyweightKg f);
           r11 = trace e ''TARGET_LOAD'' []
                  [(''targetExternalLoad'', jsNum targetExternalLoad),
                   (''deltaPct'', JStr (toFixed e (deltaPct * 100) 2 @ ''%'')),
                   (''targetReps'', JNum (real_of_int targetReps)),
                   (''targetVx'', JNum targetVx)]
                  (Some (''Ehdotettu kuorma: +''
                         @ (case targetExternalLoad of None \<Rightarrow> ''null'' | Some x \<Rightarrow> numStr e x)
                         @ '' kg'')) (snd Y);
           varaFB = varaFeedback (fr_recentTopSets f);
           r13 = (case suggestion varaFB of
                   None \<Rightarrow> r11
                 | Some sg \<Rightarrow>
                     if sg = [] then r11
                     else trace e ''VARA_FEEDBACK'' []
                            [(''suggestion'', JStr sg),
                             (''type'', case fb_type varaFB of None \<Rightarrow> JNull | Some t \<Rightarrow> JStr t)]
                            (Some sg) r11)
       in (\<lparr>pr_deltaPct = deltaPct, pr_dayType = dayType, pr_targetReps = targetReps,
            pr_targetVx = targetVx, pr_targetExternalLoad = targetExternalLoad,
            pr_setCount = setCountOf dayType, pr_varaFB = varaFB\<rparr>, r13))"
    unfolding recommendLoad_def Y_def c_def X_def
    by (simp only: Let_def split_beta)
  have u': "recommendLoad e' f r' =
      (let deltaPct = fst (fst Y'); dayType = snd (fst Y');
           targetReps = fst (targetRepsVx (fr_weekDef f) dayType);
           targetVx = snd (targetRepsVx (fr_weekDef f) dayType);
           targetExternalLoad =
             targetLoad (fr_e1rmSystem f) targetReps targetVx deltaPct (fr_bodyweightKg f);
           r11 = trace e' ''TARGET_LOAD'' []
                  [(''targetExternalLoad'', jsNum targetExternalLoad),
                   (''deltaPct'', JStr (toFixed e' (deltaPct * 100) 2 @ ''%'')),
                   (''targetReps'', JNum (real_of_int targetReps)),
                   (''targetVx'', JNum targetVx)]
                  (Some (''Ehdotettu kuorma: +''
                         @ (case targetExternalLoad of None \<Rightarrow> ''null'' | Some x \<Rightarrow> numStr e' x)
                         @ '' kg'')) (snd Y');
           varaFB = varaFeedback (fr_recentTopSets f);
           r13 = (case suggestion varaFB of
                   None \<Rightarrow> r11
                 | Some sg \<Rightarrow>
                     if sg = [] then r11
                     else trace e' ''VARA_FEEDBACK'' []
                            [(''suggestion'', JStr sg),
                             (''type'', case fb_type varaFB of None \<Rightarrow> JNull | Some t \<Rightarrow> JStr t)]
                            (Some sg) r11)
       in (\<lparr>pr_deltaPct = deltaPct, pr_dayType = dayType, pr_targetReps = targetReps,
            pr_targetVx = targetVx, pr_targetExternalLoad = targetExternalLoad,
            pr_setCount = setCountOf dayType, pr_varaFB = varaFB\<rparr>, r13))"
    unfolding recommendLoad_def Y'_def c_def X'_def X_def
    by (simp only: Let_def split_beta sx(1) [unfolded X_def X'_def])
  show "fst (recommendLoad e' f r') = fst (recommendLoad e f r)"
    unfolding u u' by (simp add: Let_def sy(1))
  show "runAgree (snd (recommendLoad e f r)) (snd (recommendLoad e' f r'))"
    unfolding u u' using sy(2)
    by (auto simp add: Let_def sy(1) h split: option.splits intro!: trace_agree)
qed

lemma stepAccessoryCap_agree:
  assumes "runAgree r r'"
  shows "fst (stepAccessoryCap e' c rd r') = fst (stepAccessoryCap e c rd r)"
    and "runAgree (snd (stepAccessoryCap e c rd r)) (snd (stepAccessoryCap e' c rd r'))"
  using assms by (simp_all add: stepAccessoryCap_def Let_def trace_agree)

lemma ensureDayPlan_agree:
  assumes "runAgree r r'"
  shows "fst (ensureDayPlan e' dp dt wd a r') = fst (ensureDayPlan e dp dt wd a r)"
    and "runAgree (snd (ensureDayPlan e dp dt wd a r)) (snd (ensureDayPlan e' dp dt wd a r'))"
  using assms by (simp_all add: ensureDayPlan_def Let_def trace_agree split: option.splits)

lemma plan_agree:
  assumes ra: "runAgree r r'"
  shows "fst (recommendPlan e' f p r') = fst (recommendPlan e f p r)"
    and "runAgree (snd (recommendPlan e f p r)) (snd (recommendPlan e' f p r'))"
proof -
  note sa = stepAccessoryCap_agree [OF ra, where e = e and e' = e'
               and c = "capLevel (fr_readiness f)" and rd = "fr_readiness f"]
  note sd = ensureDayPlan_agree [OF sa(2), where e = e and e' = e' and dp = "fr_dayPlan f"
               and dt = "pr_dayType p" and wd = "fr_weekDef f"]
  show "fst (recommendPlan e' f p r') = fst (recommendPlan e f p r)"
    by (simp add: recommendPlan_def Let_def split_beta sa(1) sd(1))
  show "runAgree (snd (recommendPlan e f p r)) (snd (recommendPlan e' f p r'))"
    using sd(2) by (simp add: recommendPlan_def Let_def split_beta sa(1))
qed

lemma eraseTrace_recId: "eraseTrace (t\<lparr>tr_recId := x\<rparr>) = eraseTrace t"
  by (simp add: eraseTrace_def)

lemma finish_agree:
  assumes dry: "opt_dryRun opts" and ra: "runAgree r r'" and fa: "frameAgree e e' f f'"
  shows "eraseIds (fst (recommendFinish e opts f p a d r))
           = eraseIds (fst (recommendFinish e' opts f' p a d r'))"
    and "rec_mesocycleId (fst (recommendFinish e opts f p a d r))
           = rec_mesocycleId (fst (recommendFinish e' opts f' p a d r'))
         \<or> (\<exists>k. rec_mesocycleId (fst (recommendFinish e opts f p a d r)) = uid e k
                \<and> rec_mesocycleId (fst (recommendFinish e' opts f' p a d r')) = uid e' k)"
    and "\<exists>k. rec_recId (fst (recommendFinish e opts f p a d r)) = uid e k
             \<and> rec_recId (fst (recommendFinish e' opts f' p a d r')) = uid e' k"
    and "snd (recommendFinish e opts f p a d r) = db r"
proof -
  have f: "f = f'\<lparr>fr_mesocycle := fr_mesocycle f\<rparr>"
    using fa by (simp add: frameAgree_def)
  have m: "mesoAgree e e' (fr_mesocycle f) (fr_mesocycle f')"
    using fa by (simp add: frameAgree_def)
  have c: "uidCount r' = uidCount r" "map eraseTrace (traces r') = map eraseTrace (traces r)"
    using ra by (simp_all add: runAgree_def)
  show "eraseIds (fst (recommendFinish e opts f p a d r))
           = eraseIds (fst (recommendFinish e' opts f' p a d r'))"
    using dry c
    by (subst f)
       (simp add: recommendFinish_def Let_def eraseIds_def eraseTrace_recId o_def
          split: option.splits)
  show "rec_mesocycleId (fst (recommendFinish e opts f p a d r))
           = rec_mesocycleId (fst (recommendFinish e' opts f' p a d r'))
         \<or> (\<exists>k. rec_mesocycleId (fst (recommendFinish e opts f p a d r)) = uid e k
                \<and> rec_mesocycleId (fst (recommendFinish e' opts f' p a d r')) = uid e' k)"
    using dry m by (simp add: recommendFinish_def Let_def mesoAgree_def)
  show "\<exists>k. rec_recId (fst (recommendFinish e opts f p a d r)) = uid e k
             \<and> rec_recId (fst (recommendFinish e' opts f' p a d r')) = uid e' k"
    using dry c by (auto simp add: recommendFinish_def Let_def)
  show "snd (recommendFinish e opts f p a d r) = db r"
    using dry by (simp add: recommendFinish_def Let_def)
qed

lemma recommend_agree:
  assumes dry: "opt_dryRun opts" and host: "hostAgree e e'"
  shows "eraseIds (fst (recommend e opts st)) = eraseIds (fst (recommend e' opts st))"
    and "rec_mesocycleId (fst (recommend e opts st)) = rec_mesocycleId (fst (recommend e' opts st))
         \<or> (\<exists>k. rec_mesocycleId (fst (recommend e opts st)) = uid e k
                \<and> rec_mesocycleId (fst (recommend e' opts st)) = uid e' k)"
    and "\<exists>k. rec_recId (fst (recommend e opts st)) = uid e k
             \<and> rec_recId (fst (recommend e' opts st)) = uid e' k"
    and "snd (recommend e opts st) = st"
proof -
  define f where "f = fst (recommendSetup e opts st)"
  define r where "r = snd (recommendSetup e opts st)"
  define f' where "f' = fst (recommendSetup e' opts st)"
  define r' where "r' = snd (recommendSetup e' opts st)"
  note S = setup_agree [OF dry host, where st = st, folded f_def r_def f'_def r'_def]
  have ff: "f'\<lparr>fr_mesocycle := fr_mesocycle f\<rparr> = f"
    using S(1) by (simp add: frameAgree_def)
  have lf: "recommendLoad e' f' r' = recommendLoad e' f r'"
    using recommendLoad_frame [where e = e' and f = f' and m = "fr_mesocycle f" and r = r']
    by (simp add: ff)
  note L = load_agree [OF host S(2), where f = f]
  define p where "p = fst (recommendLoad e f r)"
  define s where "s = snd (recommendLoad e f r)"
  define s' where "s' = snd (recommendLoad e' f r')"
  have lp: "fst (recommendLoad e' f' r') = p" "snd (recommendLoad e' f' r') = s'"
    by (simp_all add: lf L(1) p_def s'_def)
  have sa: "runAgree s s'"
    using L(2) by (simp add: s_def s'_def)
  have pf: "recommendPlan e' f' p s' = recommendPlan e' f p s'"
    using recommendPlan_frame [where e = e' and f = f' and m = "fr_mesocycle f" and p = p and r = s']
    by (simp add: ff)
  note Q = plan_agree [OF sa, where e = e and e' = e' and f = f and p = p]
  define q where "q = fst (recommendPlan e f p s)"
  define t where "t = snd (recommendPlan e f p s)"
  define t' where "t' = snd (recommendPlan e' f p s')"
  have qp: "fst (recommendPlan e' f' p s') = q" "snd (recommendPlan e' f' p s') = t'"
    by (simp_all add: pf Q(1) q_def t'_def)
  have ta: "runAgree t t'"
    using Q(2) by (simp add: t_def t'_def)
  have u: "recommend e opts st = recommendFinish e opts f p (fst q) (snd q) t"
    by (simp add: recommend_unfold Let_def f_def r_def p_def s_def q_def t_def)
  have u': "recommend e' opts st = recommendFinish e' opts f' p (fst q) (snd q) t'"
    unfolding recommend_unfold Let_def
    by (simp only: f'_def [symmetric] r'_def [symmetric] lp qp)
  note F = finish_agree [OF dry ta S(1), where p = p and a = "fst q" and d = "snd q"]
  show "eraseIds (fst (recommend e opts st)) = eraseIds (fst (recommend e' opts st))"
    unfolding u u' by (rule F(1))
  show "rec_mesocycleId (fst (recommend e opts st)) = rec_mesocycleId (fst (recommend e' opts st))
         \<or> (\<exists>k. rec_mesocycleId (fst (recommend e opts st)) = uid e k
                \<and> rec_mesocycleId (fst (recommend e' opts st)) = uid e' k)"
    unfolding u u' by (rule F(2))
  show "\<exists>k. rec_recId (fst (recommend e opts st)) = uid e k
             \<and> rec_recId (fst (recommend e' opts st)) = uid e' k"
    unfolding u u' by (rule F(3))
  have "db t = db s"
    by (simp add: t_def db_recommendPlan)
  moreover have "db s = db r"
    by (simp add: s_def db_recommendLoad)
  ultimately show "snd (recommend e opts st) = st"
    unfolding u F(4) using S(3) by simp
qed

text \<open>
  Claim C8, as amended. Two trial runs of \<open>recommend\<close> on the same options and store,
  under hosts that differ only in the identifiers \<open>uid()\<close> generates and in the clock,
  return recommendations that are equal once the generated identifiers are blanked:
  every field of the prescription, and the ordered trace with its rule identifiers,
  before and after states and rationale strings, the after-state of a
  \<open>MESOCYCLE_CREATED\<close> entry apart. The \<open>mesocycleId\<close> is the same in both runs or generated
  by the same \<open>uid()\<close> call of each, the \<open>recId\<close> is generated by the same call of each,
  and a trial run leaves the store as it was.
\<close>

theorem recommend_deterministic:
  "eraseIds (fst (recommend (env\<lparr>uid := u1, nowISO := n1\<rparr>) (opts\<lparr>opt_dryRun := True\<rparr>) st))
     = eraseIds (fst (recommend (env\<lparr>uid := u2, nowISO := n2\<rparr>) (opts\<lparr>opt_dryRun := True\<rparr>) st))
   \<and> (rec_mesocycleId (fst (recommend (env\<lparr>uid := u1, nowISO := n1\<rparr>) (opts\<lparr>opt_dryRun := True\<rparr>) st))
        = rec_mesocycleId (fst (recommend (env\<lparr>uid := u2, nowISO := n2\<rparr>) (opts\<lparr>opt_dryRun := True\<rparr>) st))
      \<or> (\<exists>k. rec_mesocycleId (fst (recommend (env\<lparr>uid := u1, nowISO := n1\<rparr>) (opts\<lparr>opt_dryRun := True\<rparr>) st)) = u1 k
             \<and> rec_mesocycleId (fst (recommend (env\<lparr>uid := u2, nowISO := n2\<rparr>) (opts\<lparr>opt_dryRun := True\<rparr>) st)) = u2 k))
   \<and> (\<exists>k. rec_recId (fst (recommend (env\<lparr>uid := u1, nowISO := n1\<rparr>) (opts\<lparr>opt_dryRun := True\<rparr>) st)) = u1 k
          \<and> rec_recId (fst (recommend (env\<lparr>uid := u2, nowISO := n2\<rparr>) (opts\<lparr>opt_dryRun := True\<rparr>) st)) = u2 k)
   \<and> snd (recommend (env\<lparr>uid := u1, nowISO := n1\<rparr>) (opts\<lparr>opt_dryRun := True\<rparr>) st) = st"
proof -
  have dry: "opt_dryRun (opts\<lparr>opt_dryRun := True\<rparr>)"
    by simp
  have host: "hostAgree (env\<lparr>uid := u1, nowISO := n1\<rparr>) (env\<lparr>uid := u2, nowISO := n2\<rparr>)"
    by (simp add: hostAgree_def)
  note R = recommend_agree [OF dry host, where st = st]
  show ?thesis
    using R by simp
qed

lemma demo_first_trace:
  "hd (map traceContent (rec_traces (fst (recommend (demoEnv\<lparr>uid := u\<rparr>) demoOpts emptyStore))))
     = (''MESOCYCLE_CREATED'', [], [(''mesocycleId'', JStr (u 0))],
        Some ''Uusi mesosykli luotu automaattisesti'')"
  by (simp add: engine_defs demoEnv_def demoOpts_def emptyStore_def traceContent_def Let_def)

text \<open>
  Claim C8 as stated fails: with no active mesocycle, two trial runs on the same
  options and store differ in the after-state of their \<open>MESOCYCLE_CREATED\<close> trace entry,
  which holds the freshly generated mesocycle identifier.
\<close>

theorem recommend_trace_counterexample:
  "map traceContent (rec_traces (fst (recommend demoEnv demoOpts emptyStore)))
     \<noteq> map traceContent (rec_traces (fst (recommend demoEnv2 demoOpts emptyStore)))"
proof
  assume eq: "map traceContent (rec_traces (fst (recommend demoEnv demoOpts emptyStore)))
     = map traceContent (rec_traces (fst (recommend demoEnv2 demoOpts emptyStore)))"
  have a: "demoEnv = demoEnv\<lparr>uid := uid demoEnv\<rparr>"
    by simp
  have "hd (map traceContent (rec_traces (fst (recommend demoEnv demoOpts emptyStore))))
     = (''MESOCYCLE_CREATED'', [], [(''mesocycleId'', JStr (uid demoEnv 0))],
        Some ''Uusi mesosykli luotu automaattisesti'')"
    by (subst a) (rule demo_first_trace)
  moreover have "hd (map traceContent (rec_traces (fst (recommend demoEnv2 demoOpts emptyStore))))
     = (''MESOCYCLE_CREATED'', [], [(''mesocycleId'', JStr (''run2-''))],
        Some ''Uusi mesosykli luotu automaattisesti'')"
    unfolding demoEnv2_def by (simp add: demo_first_trace)
  ultimately show False
    using eq by (simp add: demoEnv_def)
qed

end
